theory Spec2Isabelle
  imports Main "HOL-Library.Word"
begin

unbundle bit_operations_syntax

section \<open>Solidity value types, reverts and checked arithmetic\<close>

text \<open>
  The contracts are compiled with \<^verbatim>\<open>pragma solidity ^0.8.19\<close>: \<^verbatim>\<open>uint256\<close> arithmetic is
  checked (overflow and division by zero abort the call with \<^verbatim>\<open>Panic(0x11)\<close> and
  \<^verbatim>\<open>Panic(0x12)\<close>), a failed \<^verbatim>\<open>require(c, "msg")\<close> aborts with \<^verbatim>\<open>Error("msg")\<close>, and a failed
  \<^verbatim>\<open>abi.decode\<close> or a call to an address without code aborts with empty revert data.
  Every abort is a value \<open>Inl r\<close>; a call that aborts leaves no trace in storage, so
  a function that returns \<open>Inl r\<close> returns no state.
\<close>

type_synonym address = "160 word"
type_synonym uint256 = "256 word"
type_synonym uint8 = "8 word"
type_synonym bytes32 = "256 word"
type_synonym bytes = "8 word list"

datatype revert = Error string | Panic nat | Revert_empty

definition checked_add :: "uint256 \<Rightarrow> uint256 \<Rightarrow> revert + uint256" where
  "checked_add a b = (if unat a + unat b < 2 ^ 256 then Inr (a + b) else Inl (Panic 0x11))"

definition checked_mul :: "uint256 \<Rightarrow> uint256 \<Rightarrow> revert + uint256" where
  "checked_mul a b = (if unat a * unat b < 2 ^ 256 then Inr (a * b) else Inl (Panic 0x11))"

definition checked_div :: "uint256 \<Rightarrow> uint256 \<Rightarrow> revert + uint256" where
  "checked_div a b = (if b = 0 then Inl (Panic 0x12) else Inr (a div b))"

section \<open>ABI byte encodings\<close>

text \<open>Big-endian bytes of a word (\<open>n\<close> bytes), and the word read back from big-endian bytes.\<close>

definition be_bytes :: "nat \<Rightarrow> 'a::len word \<Rightarrow> bytes" where
  "be_bytes n w = map (\<lambda>i. ucast (drop_bit (8 * (n - 1 - i)) w)) [0..<n]"

definition be_word :: "bytes \<Rightarrow> 'a::len word" where
  "be_word bs = foldl (\<lambda>acc b. push_bit 8 acc OR ucast b) 0 bs"

text \<open>
  \<^verbatim>\<open>abi.decode(params, (address, uint256, uint256))\<close>: three 32-byte head slots; the
  decoder aborts when fewer than 96 bytes are given or when the address slot has a
  non-zero bit above bit 159. Trailing bytes are ignored.
\<close>

definition abi_decode_address_uint256_uint256 :: "bytes \<Rightarrow> (address \<times> uint256 \<times> uint256) option" where
  "abi_decode_address_uint256_uint256 params =
     (if length params < 96 then None
      else let w0 = (be_word (take 32 params) :: uint256);
               w1 = (be_word (take 32 (drop 32 params)) :: uint256);
               w2 = (be_word (take 32 (drop 64 params)) :: uint256)
           in if drop_bit 160 w0 \<noteq> 0 then None else Some (ucast w0, w1, w2))"

text \<open>\<^verbatim>\<open>abi.decode(params, (uint256, uint256))\<close>.\<close>

definition abi_decode_uint256_uint256 :: "bytes \<Rightarrow> (uint256 \<times> uint256) option" where
  "abi_decode_uint256_uint256 params =
     (if length params < 64 then None
      else Some (be_word (take 32 params), be_word (take 32 (drop 32 params))))"

text \<open>
  The encoder the tests use to build \<open>params\<close>:
  \<^verbatim>\<open>defaultAbiCoder.encode(["address", "uint256", "uint256"], [dex, amount, balance])\<close>.
\<close>

definition abi_encode_address_uint256_uint256 :: "address \<Rightarrow> uint256 \<Rightarrow> uint256 \<Rightarrow> bytes" where
  "abi_encode_address_uint256_uint256 a x y =
     be_bytes 32 (ucast a :: uint256) @ be_bytes 32 x @ be_bytes 32 y"

definition abi_encode_uint256_uint256 :: "uint256 \<Rightarrow> uint256 \<Rightarrow> bytes" where
  "abi_encode_uint256_uint256 x y = be_bytes 32 x @ be_bytes 32 y"

section \<open>PolicyManager.sol\<close>

record Policy =
  riskTolerance :: uint256
  maxTradePercent :: uint256
  emergencyThreshold :: uint256
  allowedDex :: "address list"
  isActive :: bool
  createdAt :: uint256
  updatedAt :: uint256

text \<open>The value every key of a Solidity mapping holds before it is written.\<close>

definition Policy_default :: Policy where
  "Policy_default = \<lparr>riskTolerance = 0, maxTradePercent = 0, emergencyThreshold = 0,
     allowedDex = [], isActive = False, createdAt = 0, updatedAt = 0\<rparr>"

record PolicyManager =
  pm_owner :: address
  vaultPolicies :: "address \<Rightarrow> Policy"
  authorizedValidators :: "address \<Rightarrow> bool"

definition MAX_RISK_TOLERANCE :: uint256 where "MAX_RISK_TOLERANCE = 100"
definition MAX_TRADE_PERCENT :: uint256 where "MAX_TRADE_PERCENT = 100"
definition MAX_EMERGENCY_THRESHOLD :: uint256 where "MAX_EMERGENCY_THRESHOLD = 100"

text \<open>
  The loop of \<open>setPolicy\<close> that copies the DEX list: it aborts at the first zero
  address. \<open>acc\<close> is \<open>policy.allowedDex\<close> as pushed so far.
\<close>

fun push_allowedDex :: "address list \<Rightarrow> address list \<Rightarrow> revert + address list" where
  "push_allowedDex acc [] = Inr acc"
| "push_allowedDex acc (d # ds) =
     (if d = 0 then Inl (Error ''PolicyManager: Invalid DEX address'')
      else push_allowedDex (acc @ [d]) ds)"

text \<open>
  \<open>setPolicy\<close>, called by \<open>sender\<close> in a block with timestamp \<open>now\<close>. The modifiers run
  in the order they are listed, then the body. The policy is a single storage slot
  per vault, written in place.
\<close>

definition setPolicy ::
  "address \<Rightarrow> uint256 \<Rightarrow> PolicyManager \<Rightarrow> address \<Rightarrow> uint256 \<Rightarrow> uint256 \<Rightarrow> uint256 \<Rightarrow> address list
     \<Rightarrow> revert + PolicyManager" where
  "setPolicy sender now pm vault riskTol maxTrade emergThr dexes =
     (if sender \<noteq> pm_owner pm then Inl (Error ''Ownable: caller is not the owner'')
      else if \<not> riskTol \<le> MAX_RISK_TOLERANCE then Inl (Error ''PolicyManager: Invalid risk tolerance'')
      else if \<not> maxTrade \<le> MAX_TRADE_PERCENT then Inl (Error ''PolicyManager: Invalid trade percent'')
      else if \<not> emergThr \<le> MAX_EMERGENCY_THRESHOLD then Inl (Error ''PolicyManager: Invalid emergency threshold'')
      else if \<not> vault \<noteq> 0 then Inl (Error ''PolicyManager: Invalid vault address'')
      else if \<not> length dexes > 0 then Inl (Error ''PolicyManager: Must specify at least one DEX'')
      else
        let policy = vaultPolicies pm vault;
            isUpdate = (createdAt policy > 0);
            policy = policy\<lparr>riskTolerance := riskTol, maxTradePercent := maxTrade,
                       emergencyThreshold := emergThr, isActive := True, updatedAt := now\<rparr>
        in (case push_allowedDex [] dexes of
              Inl e \<Rightarrow> Inl e
            | Inr pushed \<Rightarrow>
                (let policy = policy\<lparr>allowedDex := pushed\<rparr>;
                     policy = (if \<not> isUpdate then policy\<lparr>createdAt := now\<rparr> else policy)
                 in Inr (pm\<lparr>vaultPolicies := (vaultPolicies pm)(vault := policy)\<rparr>))))"

definition deactivatePolicy :: "address \<Rightarrow> uint256 \<Rightarrow> PolicyManager \<Rightarrow> address \<Rightarrow> revert + PolicyManager" where
  "deactivatePolicy sender now pm vault =
     (if sender \<noteq> pm_owner pm then Inl (Error ''Ownable: caller is not the owner'')
      else if \<not> createdAt (vaultPolicies pm vault) > 0 then Inl (Error ''PolicyManager: Policy does not exist'')
      else Inr (pm\<lparr>vaultPolicies := (vaultPolicies pm)
                  (vault := (vaultPolicies pm vault)\<lparr>isActive := False, updatedAt := now\<rparr>)\<rparr>))"

definition addAuthorizedValidator :: "address \<Rightarrow> PolicyManager \<Rightarrow> address \<Rightarrow> revert + PolicyManager" where
  "addAuthorizedValidator sender pm validator =
     (if sender \<noteq> pm_owner pm then Inl (Error ''Ownable: caller is not the owner'')
      else Inr (pm\<lparr>authorizedValidators := (authorizedValidators pm)(validator := True)\<rparr>))"

text \<open>
  Internal functions keep their names without the leading underscore
  (\<open>_validateSwapAction\<close> is \<open>validateSwapAction\<close>, \<open>_verifySignature\<close> is
  \<open>verifySignature\<close>, \<open>_getProposalHash\<close> is \<open>getProposalHash\<close>).
  The search loop of \<open>_validateSwapAction\<close>, with its \<^verbatim>\<open>break\<close>:
\<close>

fun dexAllowed :: "address list \<Rightarrow> address \<Rightarrow> bool" where
  "dexAllowed [] dexAddress = False"
| "dexAllowed (d # ds) dexAddress = (if d = dexAddress then True else dexAllowed ds dexAddress)"

definition validateSwapAction :: "bytes \<Rightarrow> Policy \<Rightarrow> revert + (bool \<times> string)" where
  "validateSwapAction params policy =
     (case abi_decode_address_uint256_uint256 params of
        None \<Rightarrow> Inl Revert_empty
      | Some (dexAddress, tradeAmount, vaultBalance) \<Rightarrow>
          if \<not> dexAllowed (allowedDex policy) dexAddress
          then Inr (False, ''PolicyManager: DEX not allowed by policy'')
          else (case checked_mul tradeAmount 100 of
                  Inl e \<Rightarrow> Inl e
                | Inr scaled \<Rightarrow>
                    (case checked_div scaled vaultBalance of
                       Inl e \<Rightarrow> Inl e
                     | Inr tradePercent \<Rightarrow>
                         if tradePercent > maxTradePercent policy
                         then Inr (False, ''PolicyManager: Trade size exceeds maximum allowed'')
                         else Inr (True, ''''))))"

definition validateLendingAction :: "bytes \<Rightarrow> Policy \<Rightarrow> revert + (bool \<times> string)" where
  "validateLendingAction params policy =
     (case abi_decode_uint256_uint256 params of
        None \<Rightarrow> Inl Revert_empty
      | Some (lendAmount, vaultBalance) \<Rightarrow>
          (case checked_mul lendAmount 100 of
            Inl e \<Rightarrow> Inl e
          | Inr scaled \<Rightarrow>
              (case checked_div scaled vaultBalance of
                 Inl e \<Rightarrow> Inl e
               | Inr lendPercent \<Rightarrow>
                   if lendPercent > maxTradePercent policy
                   then Inr (False, ''PolicyManager: Lending amount exceeds maximum allowed'')
                   else Inr (True, ''''))))"

definition validateBorrowingAction :: "bytes \<Rightarrow> Policy \<Rightarrow> revert + (bool \<times> string)" where
  "validateBorrowingAction params policy =
     (case abi_decode_uint256_uint256 params of
        None \<Rightarrow> Inl Revert_empty
      | Some (borrowAmount, vaultBalance) \<Rightarrow>
          (case checked_mul borrowAmount 100 of
            Inl e \<Rightarrow> Inl e
          | Inr scaled \<Rightarrow>
              (case checked_div scaled vaultBalance of
                 Inl e \<Rightarrow> Inl e
               | Inr borrowPercent \<Rightarrow>
                   if borrowPercent > maxTradePercent policy
                   then Inr (False, ''PolicyManager: Borrowing amount exceeds maximum allowed'')
                   else Inr (True, ''''))))"

text \<open>
  \<open>validateAction\<close>, called by \<open>sender\<close>. \<open>Inr (ok, message)\<close> is a normal return of
  the pair; \<open>Inl r\<close> is an abort of the call.
\<close>

definition validateAction :: "PolicyManager \<Rightarrow> address \<Rightarrow> address \<Rightarrow> uint8 \<Rightarrow> bytes \<Rightarrow> revert + (bool \<times> string)" where
  "validateAction pm sender vault actionType params =
     (if \<not> (authorizedValidators pm sender \<or> sender = pm_owner pm)
      then Inl (Error ''PolicyManager: Unauthorized validator'')
      else let policy = vaultPolicies pm vault
           in if createdAt policy = 0 then Inr (False, ''PolicyManager: No policy found for vault'')
              else if \<not> isActive policy then Inr (False, ''PolicyManager: Policy is inactive'')
              else if actionType = 0 then validateSwapAction params policy
              else if actionType = 1 then validateLendingAction params policy
              else if actionType = 2 then validateBorrowingAction params policy
              else Inr (False, ''PolicyManager: Unsupported action type''))"

section \<open>AuditLog.sol and Vault.sol\<close>

record ExecutionLog =
  log_vault :: address
  log_executor :: address
  log_actionType :: uint8
  log_params :: bytes
  log_proposalHash :: bytes32
  log_ipfsHash :: bytes32
  log_timestamp :: uint256
  log_blockNumber :: uint256
  log_exists :: bool

record AuditLog =
  al_owner :: address
  executionLogs :: "bytes32 \<Rightarrow> ExecutionLog"
  vaultExecutions :: "address \<Rightarrow> bytes32 list"
  executorExecutions :: "address \<Rightarrow> bytes32 list"
  allExecutions :: "bytes32 list"
  totalExecutions :: uint256
  authorizedLoggers :: "address \<Rightarrow> bool"

text \<open>\<open>logExecution\<close>, called by \<open>sender\<close> in block \<open>blockNumber\<close>.\<close>

definition logExecution ::
  "address \<Rightarrow> uint256 \<Rightarrow> AuditLog \<Rightarrow> address \<Rightarrow> address \<Rightarrow> uint8 \<Rightarrow> bytes \<Rightarrow> bytes32 \<Rightarrow> bytes32 \<Rightarrow> uint256
     \<Rightarrow> revert + AuditLog" where
  "logExecution sender blockNumber al vault executor actionType params proposalHash ipfsHash timestamp =
     (if \<not> (sender = al_owner al \<or> authorizedLoggers al sender)
      then Inl (Error ''AuditLog: Unauthorized logger'')
      else if \<not> vault \<noteq> 0 then Inl (Error ''AuditLog: Invalid vault address'')
      else if \<not> executor \<noteq> 0 then Inl (Error ''AuditLog: Invalid executor address'')
      else if \<not> proposalHash \<noteq> 0 then Inl (Error ''AuditLog: Invalid proposal hash'')
      else if \<not> ipfsHash \<noteq> 0 then Inl (Error ''AuditLog: Invalid IPFS hash'')
      else if \<not> \<not> log_exists (executionLogs al proposalHash)
      then Inl (Error ''AuditLog: Execution already logged'')
      else
        let log = \<lparr>log_vault = vault, log_executor = executor, log_actionType = actionType,
                   log_params = params, log_proposalHash = proposalHash, log_ipfsHash = ipfsHash,
                   log_timestamp = timestamp, log_blockNumber = blockNumber, log_exists = True\<rparr>
        in (case checked_add (totalExecutions al) 1 of
              Inl e \<Rightarrow> Inl e
            | Inr newTotal \<Rightarrow>
                Inr (al\<lparr>executionLogs := (executionLogs al)(proposalHash := log),
                        vaultExecutions := (vaultExecutions al)(vault := vaultExecutions al vault @ [proposalHash]),
                        executorExecutions :=
                          (executorExecutions al)(executor := executorExecutions al executor @ [proposalHash]),
                        allExecutions := allExecutions al @ [proposalHash],
                        totalExecutions := newTotal\<rparr>)))"

text \<open>
  Of the Vault only the storage that \<open>executeAction\<close> reads or writes is kept
  (token balances are not touched by it).
\<close>

record Vault =
  authorizedExecutors :: "address \<Rightarrow> bool"
  lastActivity :: uint256

definition executeAction :: "address \<Rightarrow> uint256 \<Rightarrow> Vault \<Rightarrow> uint8 \<Rightarrow> bytes \<Rightarrow> revert + Vault" where
  "executeAction sender now v actionType params =
     (if \<not> authorizedExecutors v sender then Inl (Error ''Vault: Unauthorized executor'')
      else Inr (v\<lparr>lastActivity := now\<rparr>))"

section \<open>Executor.sol\<close>

text \<open>
  \<open>keccak256\<close> and \<open>ecrecover\<close> are built into the EVM, not code of the repository.
  The hash is a parameter \<open>keccak256\<close> of every definition that uses it, so each
  theorem holds for every hash function. Of \<open>ecrecover\<close> the documented input check
  is written out: it yields the zero address when \<open>v\<close> is neither 27 nor 28 or when no
  public key can be recovered; the recovery on the curve itself is the parameter
  \<open>recover\<close>.
\<close>

type_synonym keccak = "bytes \<Rightarrow> bytes32"
type_synonym curve_recover = "bytes32 \<Rightarrow> uint8 \<Rightarrow> bytes32 \<Rightarrow> bytes32 \<Rightarrow> address option"

definition ecrecover :: "curve_recover \<Rightarrow> bytes32 \<Rightarrow> uint8 \<Rightarrow> bytes32 \<Rightarrow> bytes32 \<Rightarrow> address" where
  "ecrecover recover hash v r s =
     (if v \<noteq> 27 \<and> v \<noteq> 28 then 0
      else case recover hash v r s of None \<Rightarrow> 0 | Some a \<Rightarrow> a)"

record Executor =
  ex_owner :: address
  agentSigner :: address
  usedNonces :: "bytes32 \<Rightarrow> bool"
  vaultNonces :: "address \<Rightarrow> uint256"

text \<open>
  The chain as far as \<open>executeProposal\<close> touches it: the Executor (deployed at
  \<open>executor_address\<close>), the PolicyManager and AuditLog it refers to, and the Vault
  contracts by address.
\<close>

record Chain =
  executor :: Executor
  executor_address :: address
  policyManager :: PolicyManager
  auditLog :: AuditLog
  vaults :: "address \<rightharpoonup> Vault"

record Call_env =
  msg_sender :: address
  block_timestamp :: uint256
  block_number :: uint256

definition MAX_DEADLINE_DURATION :: uint256 where "MAX_DEADLINE_DURATION = 3600"
definition MIN_DEADLINE_DURATION :: uint256 where "MIN_DEADLINE_DURATION = 300"

text \<open>The modifier \<open>validDeadline\<close>: three \<^verbatim>\<open>require\<close>s in this order.\<close>

definition validDeadline :: "uint256 \<Rightarrow> uint256 \<Rightarrow> revert + unit" where
  "validDeadline now deadline =
     (if \<not> deadline > now then Inl (Error ''Executor: Deadline has passed'')
      else (case checked_add now MAX_DEADLINE_DURATION of
              Inl e \<Rightarrow> Inl e
            | Inr latest \<Rightarrow>
                if \<not> deadline \<le> latest then Inl (Error ''Executor: Deadline too far'')
                else (case checked_add now MIN_DEADLINE_DURATION of
                        Inl e \<Rightarrow> Inl e
                      | Inr earliest \<Rightarrow>
                          if \<not> deadline \<ge> earliest then Inl (Error ''Executor: Deadline too soon'')
                          else Inr ())))"

text \<open>
  \<^verbatim>\<open>abi.encodePacked(vault, actionType, params, ipfsHash, nonce, deadline)\<close>: the values
  in their own widths, no padding, no length prefix.
\<close>

definition abi_encodePacked_proposal :: "address \<Rightarrow> uint8 \<Rightarrow> bytes \<Rightarrow> bytes32 \<Rightarrow> uint256 \<Rightarrow> uint256 \<Rightarrow> bytes" where
  "abi_encodePacked_proposal vault actionType params ipfsHash nonce deadline =
     be_bytes 20 vault @ [actionType] @ params @ be_bytes 32 ipfsHash @ be_bytes 32 nonce @ be_bytes 32 deadline"

definition getProposalHash :: "keccak \<Rightarrow> address \<Rightarrow> uint8 \<Rightarrow> bytes \<Rightarrow> bytes32 \<Rightarrow> uint256 \<Rightarrow> uint256 \<Rightarrow> bytes32" where
  "getProposalHash keccak256 vault actionType params ipfsHash nonce deadline =
     keccak256 (abi_encodePacked_proposal vault actionType params ipfsHash nonce deadline)"

text \<open>The 28 bytes of \<^verbatim>\<open>"\x19Ethereum Signed Message:\n32"\<close>.\<close>

definition eth_signed_message_prefix :: bytes where
  "eth_signed_message_prefix =
     0x19 # map of_char (''Ethereum Signed Message:'' @ [CHR 0x0A] @ ''32'')"

text \<open>
  \<open>_verifySignature\<close>: \<open>r\<close> and \<open>s\<close> are the first two 32-byte words of the
  signature, \<open>v\<close> its byte 64.
\<close>

definition verifySignature :: "keccak \<Rightarrow> curve_recover \<Rightarrow> Executor \<Rightarrow> bytes32 \<Rightarrow> bytes \<Rightarrow> revert + bool" where
  "verifySignature keccak256 recover ex proposalHash signature =
     (if \<not> length signature = 65 then Inl (Error ''Executor: Invalid signature length'')
      else
        let messageHash = keccak256 (eth_signed_message_prefix @ be_bytes 32 proposalHash);
            r = be_word (take 32 signature);
            s = be_word (take 32 (drop 32 signature));
            v = signature ! 64;
            recovered = ecrecover recover messageHash v r s
        in Inr (recovered = agentSigner ex))"

definition nonceKey_of :: "keccak \<Rightarrow> address \<Rightarrow> uint256 \<Rightarrow> bytes32" where
  "nonceKey_of keccak256 signer nonce = keccak256 (be_bytes 20 signer @ be_bytes 32 nonce)"

text \<open>
  \<open>executeProposal\<close>. The modifier \<open>nonReentrant\<close> only rejects a call made while
  another call of the Executor is running; none of the contracts called here calls
  back, so it never fires and is left out. Each write is made where the source makes
  it; an abort anywhere returns \<open>Inl\<close> and with it discards the writes made so far.
\<close>

definition executeProposal ::
  "keccak \<Rightarrow> curve_recover \<Rightarrow> Call_env \<Rightarrow> Chain
     \<Rightarrow> address \<Rightarrow> uint8 \<Rightarrow> bytes \<Rightarrow> bytes32 \<Rightarrow> uint256 \<Rightarrow> uint256 \<Rightarrow> bytes \<Rightarrow> revert + Chain" where
  "executeProposal keccak256 recover env c vault actionType params ipfsHash nonce deadline signature =
     (case validDeadline (block_timestamp env) deadline of
        Inl e \<Rightarrow> Inl e
      | Inr _ \<Rightarrow>
          (let proposalHash = getProposalHash keccak256 vault actionType params ipfsHash nonce deadline
           in case verifySignature keccak256 recover (executor c) proposalHash signature of
                Inl e \<Rightarrow> Inl e
              | Inr sigOk \<Rightarrow>
                  if \<not> sigOk then Inl (Error ''Executor: Invalid signature'')
                  else
                    (let nonceKey = nonceKey_of keccak256 (agentSigner (executor c)) nonce
                     in if \<not> \<not> usedNonces (executor c) nonceKey
                        then Inl (Error ''Executor: Nonce already used'')
                        else
                          (let c1 = c\<lparr>executor := (executor c)
                                      \<lparr>usedNonces := (usedNonces (executor c))(nonceKey := True)\<rparr>\<rparr>
                           in case validateAction (policyManager c1) (executor_address c1)
                                     vault actionType params of
                                Inl e \<Rightarrow> Inl e
                              | Inr (isValid, reason) \<Rightarrow>
                                  if \<not> isValid then Inl (Error reason)
                                  else
                                    (case vaults c1 vault of
                                       None \<Rightarrow> Inl Revert_empty
                                     | Some vaultContract \<Rightarrow>
                                         (case executeAction (executor_address c1) (block_timestamp env)
                                                 vaultContract actionType params of
                                            Inl e \<Rightarrow> Inl e
                                          | Inr vaultContract' \<Rightarrow>
                                              (case logExecution (executor_address c1) (block_number env)
                                                      (auditLog c1) vault (msg_sender env) actionType params
                                                      proposalHash ipfsHash (block_timestamp env) of
                                                 Inl e \<Rightarrow> Inl e
                                               | Inr auditLog' \<Rightarrow>
                                                   Inr (c1\<lparr>vaults := (vaults c1)(vault \<mapsto> vaultContract'),
                                                           auditLog := auditLog'\<rparr>))))))))"

definition isNonceUsed :: "keccak \<Rightarrow> Executor \<Rightarrow> uint256 \<Rightarrow> bool" where
  "isNonceUsed keccak256 ex nonce = usedNonces ex (nonceKey_of keccak256 (agentSigner ex) nonce)"

definition getNextNonce :: "Executor \<Rightarrow> address \<Rightarrow> revert + uint256" where
  "getNextNonce ex vault = checked_add (vaultNonces ex vault) 1"

definition updateAgentSigner :: "address \<Rightarrow> Executor \<Rightarrow> address \<Rightarrow> revert + Executor" where
  "updateAgentSigner sender ex newAgentSigner =
     (if sender \<noteq> ex_owner ex then Inl (Error ''Ownable: caller is not the owner'')
      else if \<not> newAgentSigner \<noteq> 0 then Inl (Error ''Executor: Invalid agent signer'')
      else Inr (ex\<lparr>agentSigner := newAgentSigner\<rparr>))"

definition emergencyPause :: "address \<Rightarrow> Executor \<Rightarrow> revert + Executor" where
  "emergencyPause sender ex =
     (if sender \<noteq> ex_owner ex then Inl (Error ''Ownable: caller is not the owner'')
      else Inr (ex\<lparr>agentSigner := 0\<rparr>))"

definition emergencyUnpause :: "address \<Rightarrow> Executor \<Rightarrow> address \<Rightarrow> revert + Executor" where
  "emergencyUnpause sender ex newAgentSigner =
     (if sender \<noteq> ex_owner ex then Inl (Error ''Ownable: caller is not the owner'')
      else if \<not> newAgentSigner \<noteq> 0 then Inl (Error ''Executor: Invalid agent signer'')
      else Inr (ex\<lparr>agentSigner := newAgentSigner\<rparr>))"

subsection \<open>Transactions and traces\<close>

text \<open>
  One submission to the relay: the six proposal fields and the signature, as
  \<open>executeProposal\<close> receives them.
\<close>

record Submission =
  sub_vault :: address
  sub_actionType :: uint8
  sub_params :: bytes
  sub_ipfsHash :: bytes32
  sub_nonce :: uint256
  sub_deadline :: uint256
  sub_signature :: bytes

definition submit :: "keccak \<Rightarrow> curve_recover \<Rightarrow> Call_env \<Rightarrow> Chain \<Rightarrow> Submission \<Rightarrow> revert + Chain" where
  "submit keccak256 recover env c sub =
     executeProposal keccak256 recover env c (sub_vault sub) (sub_actionType sub) (sub_params sub)
       (sub_ipfsHash sub) (sub_nonce sub) (sub_deadline sub) (sub_signature sub)"

text \<open>
  A transaction either calls one of the Executor's state-changing functions or
  changes the rest of the chain (\<open>Tx_environment\<close>: any transactions on the
  PolicyManager, the AuditLog and the Vaults, which cannot write Executor storage).
  A transaction that aborts leaves the chain as it was.
\<close>

datatype tx =
    Tx_executeProposal Call_env Submission
  | Tx_updateAgentSigner address address
  | Tx_emergencyPause address
  | Tx_emergencyUnpause address address
  | Tx_environment PolicyManager AuditLog "address \<rightharpoonup> Vault"

fun step :: "keccak \<Rightarrow> curve_recover \<Rightarrow> Chain \<Rightarrow> tx \<Rightarrow> revert + Chain" where
  "step keccak256 recover c (Tx_executeProposal env sub) = submit keccak256 recover env c sub"
| "step keccak256 recover c (Tx_updateAgentSigner sender a) =
     (case updateAgentSigner sender (executor c) a of
        Inl e \<Rightarrow> Inl e | Inr ex \<Rightarrow> Inr (c\<lparr>executor := ex\<rparr>))"
| "step keccak256 recover c (Tx_emergencyPause sender) =
     (case emergencyPause sender (executor c) of
        Inl e \<Rightarrow> Inl e | Inr ex \<Rightarrow> Inr (c\<lparr>executor := ex\<rparr>))"
| "step keccak256 recover c (Tx_emergencyUnpause sender a) =
     (case emergencyUnpause sender (executor c) a of
        Inl e \<Rightarrow> Inl e | Inr ex \<Rightarrow> Inr (c\<lparr>executor := ex\<rparr>))"
| "step keccak256 recover c (Tx_environment pm al vs) =
     Inr (c\<lparr>policyManager := pm, auditLog := al, vaults := vs\<rparr>)"

fun is_submission_of :: "Submission \<Rightarrow> tx \<Rightarrow> bool" where
  "is_submission_of sub (Tx_executeProposal env sub') = (sub' = sub)"
| "is_submission_of sub _ = False"

text \<open>How often a trace executes (without abort) the submission \<open>sub\<close>.\<close>

fun executed_count :: "keccak \<Rightarrow> curve_recover \<Rightarrow> Chain \<Rightarrow> tx list \<Rightarrow> Submission \<Rightarrow> nat" where
  "executed_count keccak256 recover c [] sub = 0"
| "executed_count keccak256 recover c (t # ts) sub =
     (case step keccak256 recover c t of
        Inl e \<Rightarrow> executed_count keccak256 recover c ts sub
      | Inr c' \<Rightarrow> (if is_submission_of sub t then 1 else 0) + executed_count keccak256 recover c' ts sub)"

text \<open>
  The relay's answer to each transaction of a trace (\<open>Executed\<close>, or \<open>Rejected\<close> with
  the abort), and the chain after the trace.
\<close>

datatype outcome = Executed | Rejected revert

fun outcomes :: "keccak \<Rightarrow> curve_recover \<Rightarrow> Chain \<Rightarrow> tx list \<Rightarrow> outcome list" where
  "outcomes keccak256 recover c [] = []"
| "outcomes keccak256 recover c (t # ts) =
     (case step keccak256 recover c t of
        Inl e \<Rightarrow> Rejected e # outcomes keccak256 recover c ts
      | Inr c' \<Rightarrow> Executed # outcomes keccak256 recover c' ts)"

fun run :: "keccak \<Rightarrow> curve_recover \<Rightarrow> Chain \<Rightarrow> tx list \<Rightarrow> Chain" where
  "run keccak256 recover c [] = c"
| "run keccak256 recover c (t # ts) =
     (case step keccak256 recover c t of
        Inl e \<Rightarrow> run keccak256 recover c ts
      | Inr c' \<Rightarrow> run keccak256 recover c' ts)"

text \<open>The address \<open>_verifySignature\<close> recovers from a submission.\<close>

definition recovered_signer :: "keccak \<Rightarrow> curve_recover \<Rightarrow> Submission \<Rightarrow> address" where
  "recovered_signer keccak256 recover sub =
     ecrecover recover
       (keccak256 (eth_signed_message_prefix @ be_bytes 32
          (getProposalHash keccak256 (sub_vault sub) (sub_actionType sub) (sub_params sub)
             (sub_ipfsHash sub) (sub_nonce sub) (sub_deadline sub))))
       (sub_signature sub ! 64)
       (be_word (take 32 (sub_signature sub)))
       (be_word (take 32 (drop 32 (sub_signature sub))))"

text \<open>The key under which the Executor marks the nonce of a submission it executes.\<close>

definition sub_key :: "keccak \<Rightarrow> curve_recover \<Rightarrow> Submission \<Rightarrow> bytes32" where
  "sub_key keccak256 recover sub =
     nonceKey_of keccak256 (recovered_signer keccak256 recover sub) (sub_nonce sub)"

section \<open>signer.ts\<close>

text \<open>
  JavaScript numbers are IEEE doubles. The numbers of the Signer (nonces, offsets,
  timestamps in seconds) are modelled as \<open>int\<close>, the integer-valued doubles: every
  integer of magnitude up to \<open>2 ^ 53\<close> is a double, and above that only the multiples of
  the spacing \<open>2 ^ (e - 52)\<close> between \<open>2 ^ e\<close> and \<open>2 ^ (e + 1)\<close> are. \<open>round_double\<close>
  rounds an integer to the nearest double, ties to the even multiple, as the
  addition of two doubles rounds its exact sum. Numbers that are no integers (a
  fractional offset, \<open>NaN\<close>, an infinity) are outside the model.
\<close>

fun floor_log2 :: "nat \<Rightarrow> nat" where
  "floor_log2 n = (if n < 2 then 0 else Suc (floor_log2 (n div 2)))"

declare floor_log2.simps [simp del]

definition round_double :: "int \<Rightarrow> int" where
  "round_double x =
     (if \<bar>x\<bar> \<le> 2 ^ 53 then x
      else let a = nat \<bar>x\<bar>;
               ulp = 2 ^ (floor_log2 a - 52);
               q = a div ulp;
               r = a mod ulp;
               m = (if 2 * r < ulp then q
                    else if ulp < 2 * r then q + 1
                    else if even q then q else q + 1)
           in sgn x * int (m * ulp))"

text \<open>The \<^verbatim>\<open>+\<close> of two integer-valued numbers.\<close>

definition js_add :: "int \<Rightarrow> int \<Rightarrow> int" where
  "js_add a b = round_double (a + b)"

text \<open>
  \<^verbatim>\<open>Math.floor(Date.now() / 1000)\<close>. \<^verbatim>\<open>Date.now()\<close> is a whole number of milliseconds of
  magnitude at most \<open>8.64 * 10 ^ 15\<close>; on that range the rounded quotient lies strictly
  between the same two integers as the exact one, so the floor is \<open>div\<close>.
\<close>

definition now_seconds :: "int \<Rightarrow> int" where
  "now_seconds date_now = date_now div 1000"

text \<open>The TypeScript \<open>Proposal\<close> interface.\<close>

record Proposal =
  vault :: string
  actionType :: int
  params :: string
  ipfsHash :: string
  nonce :: int
  deadline :: int

text \<open>
  \<open>nonceTracker\<close> is a \<^verbatim>\<open>Map<string, number>\<close>; \<^verbatim>\<open>get(v) || 0\<close> is 0 for a missing key.
  \<open>getNextNonce\<close> returns the nonce and the updated tracker.
\<close>

definition Signer_getNextNonce :: "(string \<rightharpoonup> int) \<Rightarrow> string \<Rightarrow> int \<times> (string \<rightharpoonup> int)" where
  "Signer_getNextNonce nonceTracker vaultAddress =
     (let currentNonce = (case nonceTracker vaultAddress of None \<Rightarrow> 0 | Some n \<Rightarrow> n);
          nextNonce = js_add currentNonce 1
      in (nextNonce, nonceTracker(vaultAddress \<mapsto> nextNonce)))"

text \<open>\<open>createProposal\<close>; \<open>date_now\<close> is \<^verbatim>\<open>Date.now()\<close>, milliseconds since the epoch.\<close>

definition createProposal ::
  "int \<Rightarrow> (string \<rightharpoonup> int) \<Rightarrow> string \<Rightarrow> int \<Rightarrow> string \<Rightarrow> string \<Rightarrow> int \<Rightarrow> Proposal \<times> (string \<rightharpoonup> int)" where
  "createProposal date_now nonceTracker vaultAddress actType ps ipfs deadlineOffset =
     (let (nextNonce, nonceTracker') = Signer_getNextNonce nonceTracker vaultAddress;
          dl = js_add (now_seconds date_now) deadlineOffset
      in (\<lparr>vault = vaultAddress, actionType = actType, params = ps, ipfsHash = ipfs,
           nonce = nextNonce, deadline = dl\<rparr>, nonceTracker'))"

text \<open>
  \<open>validateProposal\<close>, a separate method that \<open>createProposal\<close> does not call. It reads
  the clock twice: \<open>date_now1\<close> for the check that the deadline has not passed,
  \<open>date_now2\<close> for \<open>maxDeadline\<close>. \<^verbatim>\<open>ethers.utils.isAddress\<close> is the parameter \<open>isAddress\<close>.
\<close>

definition validateProposal :: "int \<Rightarrow> int \<Rightarrow> (string \<Rightarrow> bool) \<Rightarrow> Proposal \<Rightarrow> bool" where
  "validateProposal date_now1 date_now2 isAddress proposal =
     (if vault proposal = [] \<or> \<not> isAddress (vault proposal) then False
      else if actionType proposal < 0 \<or> actionType proposal > 5 then False
      else if params proposal = [] \<or> length (params proposal) = 0 then False
      else if ipfsHash proposal = [] \<or> length (ipfsHash proposal) \<noteq> 66 then False
      else if nonce proposal < 0 then False
      else if deadline proposal \<le> now_seconds date_now1 then False
      else let maxDeadline = js_add (now_seconds date_now2) (24 * 60 * 60)
           in if deadline proposal > maxDeadline then False else True)"

text \<open>
  \<open>encodeProposal\<close>:
  \<^verbatim>\<open>defaultAbiCoder.encode(['address','uint8','bytes','bytes32','uint256','uint256'], [...])\<close>,
  on the six values as ethers reads them from the strings and numbers of the
  \<open>Proposal\<close>. The standard ABI encoding: six 32-byte head slots (the third is the
  offset \<open>0xc0\<close> of the dynamic \<open>bytes\<close>), then the length of \<open>params\<close> as a 32-byte word
  and \<open>params\<close> padded with zeros to a multiple of 32 bytes.
\<close>

definition encodeProposal :: "address \<Rightarrow> uint8 \<Rightarrow> bytes \<Rightarrow> bytes32 \<Rightarrow> uint256 \<Rightarrow> uint256 \<Rightarrow> bytes" where
  "encodeProposal vaultAddress actType ps ipfs n dl =
     be_bytes 32 (ucast vaultAddress :: uint256) @ be_bytes 32 (ucast actType :: uint256)
       @ be_bytes 32 (0xc0 :: uint256) @ be_bytes 32 ipfs @ be_bytes 32 n @ be_bytes 32 dl
       @ be_bytes 32 (of_nat (length ps) :: uint256) @ ps
       @ replicate ((32 - length ps mod 32) mod 32) 0"

text \<open>\<open>Signer.getProposalHash\<close>, the hash \<open>signProposal\<close> signs.\<close>

definition Signer_getProposalHash :: "keccak \<Rightarrow> address \<Rightarrow> uint8 \<Rightarrow> bytes \<Rightarrow> bytes32 \<Rightarrow> uint256 \<Rightarrow> uint256 \<Rightarrow> bytes32" where
  "Signer_getProposalHash keccak256 vaultAddress actType ps ipfs n dl =
     keccak256 (encodeProposal vaultAddress actType ps ipfs n dl)"

section \<open>A deployment\<close>

text \<open>
  The deployment of \<^verbatim>\<open>executor.test.cjs\<close>: owner \<open>0x01\<close>, agent signer \<open>0xA1\<close>, relayer
  \<open>0xB2\<close>, Executor at \<open>0xE0\<close>, Vaults at \<open>0x50\<close> and \<open>0x51\<close>, each with the policy
  \<open>(50, 10, 90, [0xD1])\<close> set at time 1000, the Executor authorized at the
  PolicyManager, the Vaults and the AuditLog.
\<close>

definition policy0 :: Policy where
  "policy0 = \<lparr>riskTolerance = 50, maxTradePercent = 10, emergencyThreshold = 90,
     allowedDex = [0xD1], isActive = True, createdAt = 1000, updatedAt = 1000\<rparr>"

definition pm_empty :: PolicyManager where
  "pm_empty = \<lparr>pm_owner = 0x01, vaultPolicies = (\<lambda>_. Policy_default),
     authorizedValidators = (\<lambda>_. False)\<rparr>"

definition pm0 :: PolicyManager where
  "pm0 = \<lparr>pm_owner = 0x01, vaultPolicies = (\<lambda>_. Policy_default)(0x50 := policy0, 0x51 := policy0),
     authorizedValidators = (\<lambda>_. False)(0xE0 := True)\<rparr>"

definition log_default :: ExecutionLog where
  "log_default = \<lparr>log_vault = 0, log_executor = 0, log_actionType = 0, log_params = [],
     log_proposalHash = 0, log_ipfsHash = 0, log_timestamp = 0, log_blockNumber = 0,
     log_exists = False\<rparr>"

definition al0 :: AuditLog where
  "al0 = \<lparr>al_owner = 0x01, executionLogs = (\<lambda>_. log_default), vaultExecutions = (\<lambda>_. []),
     executorExecutions = (\<lambda>_. []), allExecutions = [], totalExecutions = 0,
     authorizedLoggers = (\<lambda>_. False)(0xE0 := True)\<rparr>"

definition vault0 :: Vault where
  "vault0 = \<lparr>authorizedExecutors = (\<lambda>_. False)(0xE0 := True), lastActivity = 1000\<rparr>"

definition executor0 :: Executor where
  "executor0 = \<lparr>ex_owner = 0x01, agentSigner = 0xA1, usedNonces = (\<lambda>_. False),
     vaultNonces = (\<lambda>_. 0)\<rparr>"

definition chain0 :: Chain where
  "chain0 = \<lparr>executor = executor0, executor_address = 0xE0, policyManager = pm0,
     auditLog = al0, vaults = [0x50 \<mapsto> vault0, 0x51 \<mapsto> vault0]\<rparr>"

definition env0 :: Call_env where
  "env0 = \<lparr>msg_sender = 0xB2, block_timestamp = 2000, block_number = 7\<rparr>"

text \<open>
  Stand-ins for the two EVM primitives, used only where a theorem that holds for
  every hash and every curve recovery is applied at a concrete input: the hash
  counts the bytes, and a signature names its signer in \<open>r\<close>.
\<close>

definition stub_keccak :: keccak where
  "stub_keccak bs = 1 + of_nat (length bs)"

definition stub_recover :: curve_recover where
  "stub_recover hash v r s = (if r = 0 then None else Some (ucast r))"

text \<open>A 65-byte signature with the given \<open>r\<close>, \<open>s = 1\<close>, and the given \<open>v\<close>.\<close>

definition signature_of :: "bytes32 \<Rightarrow> uint8 \<Rightarrow> bytes" where
  "signature_of r v = be_bytes 32 r @ be_bytes 32 (1 :: bytes32) @ [v]"

text \<open>The swap of the end-to-end scenario: venue \<open>0xD1\<close>, amount 100, balance 1000.\<close>

definition sub0 :: Submission where
  "sub0 = \<lparr>sub_vault = 0x50, sub_actionType = 0,
     sub_params = abi_encode_address_uint256_uint256 0xD1 100 1000,
     sub_ipfsHash = 0x1234, sub_nonce = 1, sub_deadline = 5600,
     sub_signature = signature_of 0xA1 27\<rparr>"

text \<open>The same PolicyManager before any policy is set.\<close>

definition pm_nopolicy :: PolicyManager where
  "pm_nopolicy = pm0\<lparr>vaultPolicies := (\<lambda>_. Policy_default)\<rparr>"

text \<open>The policy of Vault \<open>0x50\<close> after a second \<open>setPolicy(60, 20, 80, [0xD2])\<close> at time 2000.\<close>

definition policy1 :: Policy where
  "policy1 = \<lparr>riskTolerance = 60, maxTradePercent = 20, emergencyThreshold = 80,
     allowedDex = [0xD2], isActive = True, createdAt = 1000, updatedAt = 2000\<rparr>"

section \<open>Evaluation and basic facts\<close>

lemmas model_defs = submit_def executeProposal_def validDeadline_def checked_add_def checked_mul_def
  checked_div_def MAX_DEADLINE_DURATION_def MIN_DEADLINE_DURATION_def getProposalHash_def
  verifySignature_def nonceKey_of_def validateAction_def validateSwapAction_def executeAction_def
  logExecution_def ecrecover_def abi_decode_address_uint256_uint256_def
  abi_encode_address_uint256_uint256_def abi_encodePacked_proposal_def eth_signed_message_prefix_def
  be_bytes_def be_word_def emergencyPause_def

lemmas world_defs = chain0_def env0_def sub0_def pm0_def al0_def vault0_def executor0_def policy0_def
  stub_keccak_def stub_recover_def signature_of_def log_default_def Policy_default_def

lemmas pm_world = pm0_def policy0_def Policy_default_def pm_empty_def

lemmas abi_eval = abi_decode_address_uint256_uint256_def abi_encode_address_uint256_uint256_def
  abi_decode_uint256_uint256_def abi_encode_uint256_uint256_def be_bytes_def be_word_def upt_rec

lemmas policy_bounds = MAX_RISK_TOLERANCE_def MAX_TRADE_PERCENT_def MAX_EMERGENCY_THRESHOLD_def

lemma length_be_bytes [simp]: "length (be_bytes n w) = n"
  by (simp add: be_bytes_def)

lemma dexAllowed_iff: "dexAllowed ds d \<longleftrightarrow> d \<in> set ds"
  by (induction ds) auto

lemma checked_mul_100:
  "checked_mul a 100 = (if unat a * 100 < 2 ^ 256 then Inr (a * 100) else Inl (Panic 0x11))"
  by (simp add: checked_mul_def)

lemma unat_mul_100: "unat a * 100 < 2 ^ 256 \<Longrightarrow> unat (a * 100 :: uint256) = unat a * 100"
  by (simp add: unat_word_ariths)

lemma decode_swap_100:
  "abi_decode_address_uint256_uint256 (abi_encode_address_uint256_uint256 0xD1 100 1000)
     = Some (0xD1, 100, 1000)"
  by (simp add: abi_eval)

lemma decode_swap_101:
  "abi_decode_address_uint256_uint256 (abi_encode_address_uint256_uint256 0xD1 101 1000)
     = Some (0xD1, 101, 1000)"
  by (simp add: abi_eval)

lemma decode_lend_zero: "abi_decode_uint256_uint256 (abi_encode_uint256_uint256 5 0) = Some (5, 0)"
  by (simp add: abi_eval)

section \<open>The Executor's checks\<close>

text \<open>What an execution that does not abort has checked and written.\<close>

lemma executeProposal_Inr:
  assumes "executeProposal K R env c v a ps h n d sig = Inr c'"
  shows "validDeadline (block_timestamp env) d = Inr ()"
    and "verifySignature K R (executor c) (getProposalHash K v a ps h n d) sig = Inr True"
    and "\<not> usedNonces (executor c) (nonceKey_of K (agentSigner (executor c)) n)"
    and "executor c' = (executor c)\<lparr>usedNonces :=
           (usedNonces (executor c))(nonceKey_of K (agentSigner (executor c)) n := True)\<rparr>"
  using assms
  by (auto simp add: executeProposal_def Let_def split: sum.splits if_splits option.splits prod.splits)

lemma executeProposal_deadline:
  assumes "validDeadline (block_timestamp env) d = Inl e"
  shows "executeProposal K R env c v a ps h n d sig = Inl e"
  using assms by (simp add: executeProposal_def)

lemma executeProposal_nonce_used:
  assumes "validDeadline (block_timestamp env) d = Inr ()"
    and "verifySignature K R (executor c) (getProposalHash K v a ps h n d) sig = Inr True"
    and "usedNonces (executor c) (nonceKey_of K (agentSigner (executor c)) n)"
  shows "executeProposal K R env c v a ps h n d sig = Inl (Error ''Executor: Nonce already used'')"
  using assms by (simp add: executeProposal_def Let_def)

lemma executeProposal_succeeds:
  assumes "validDeadline (block_timestamp env) d = Inr ()"
    and "verifySignature K R (executor c) (getProposalHash K v a ps h n d) sig = Inr True"
    and "\<not> usedNonces (executor c) (nonceKey_of K (agentSigner (executor c)) n)"
    and "validateAction (policyManager c) (executor_address c) v a ps = Inr (True, reason)"
    and "vaults c v = Some vc"
    and "authorizedExecutors vc (executor_address c)"
    and "logExecution (executor_address c) (block_number env) (auditLog c) v (msg_sender env) a ps
           (getProposalHash K v a ps h n d) h (block_timestamp env) = Inr al'"
  shows "executeProposal K R env c v a ps h n d sig =
           Inr (c\<lparr>executor := (executor c)\<lparr>usedNonces :=
                     (usedNonces (executor c))(nonceKey_of K (agentSigner (executor c)) n := True)\<rparr>,
                   vaults := (vaults c)(v \<mapsto> vc\<lparr>lastActivity := block_timestamp env\<rparr>),
                   auditLog := al'\<rparr>)"
  using assms by (simp add: executeProposal_def Let_def executeAction_def)

lemma verifySignature_True:
  "verifySignature K R ex (getProposalHash K (sub_vault sub) (sub_actionType sub) (sub_params sub)
       (sub_ipfsHash sub) (sub_nonce sub) (sub_deadline sub)) (sub_signature sub) = Inr True
   \<Longrightarrow> agentSigner ex = recovered_signer K R sub"
  by (auto simp add: verifySignature_def recovered_signer_def Let_def split: if_splits)

lemma verifySignature_paused:
  assumes "length sig = 65" and "sig ! 64 \<noteq> 27" and "sig ! 64 \<noteq> 28" and "agentSigner ex = 0"
  shows "verifySignature K R ex h sig = Inr True"
  using assms by (simp add: verifySignature_def ecrecover_def Let_def)

lemma submit_marks_key:
  assumes "submit K R env c sub = Inr c'"
  shows "usedNonces (executor c') (sub_key K R sub)"
proof -
  note f = executeProposal_Inr [OF assms [unfolded submit_def]]
  from verifySignature_True [OF f(2)] have "agentSigner (executor c) = recovered_signer K R sub" .
  with f(4) show ?thesis by (simp add: sub_key_def)
qed

lemma submit_fails_when_key_used:
  assumes "usedNonces (executor c) (sub_key K R sub)"
  shows "isl (submit K R env c sub)"
proof (rule ccontr)
  assume "\<not> isl (submit K R env c sub)"
  then obtain c' where ok: "submit K R env c sub = Inr c'"
    by (cases "submit K R env c sub") auto
  note f = executeProposal_Inr [OF ok [unfolded submit_def]]
  from verifySignature_True [OF f(2)] have "agentSigner (executor c) = recovered_signer K R sub" .
  with f(3) assms show False by (simp add: sub_key_def)
qed

text \<open>No transaction ever clears a used nonce key.\<close>

lemma step_keeps_used:
  assumes "step K R c t = Inr c'" and "usedNonces (executor c) k"
  shows "usedNonces (executor c') k"
proof (cases t)
  case (Tx_executeProposal env sub)
  with assms(1) have "submit K R env c sub = Inr c'" by simp
  from executeProposal_Inr(4) [OF this [unfolded submit_def]] assms(2) show ?thesis by simp
next
  case (Tx_updateAgentSigner s a)
  with assms show ?thesis by (auto simp add: updateAgentSigner_def split: if_splits)
next
  case (Tx_emergencyPause s)
  with assms show ?thesis by (auto simp add: emergencyPause_def split: if_splits)
next
  case (Tx_emergencyUnpause s a)
  with assms show ?thesis by (auto simp add: emergencyUnpause_def split: if_splits)
next
  case (Tx_environment pm al vs)
  with assms show ?thesis by auto
qed

lemma executed_count_zero_when_used:
  "usedNonces (executor c) (sub_key K R sub) \<Longrightarrow> executed_count K R c ts sub = 0"
proof (induction ts arbitrary: c)
  case Nil
  then show ?case by simp
next
  case (Cons t ts)
  show ?case
  proof (cases "step K R c t")
    case (Inl e)
    with Cons show ?thesis by simp
  next
    case (Inr c')
    from step_keeps_used [OF Inr Cons.prems] have used': "usedNonces (executor c') (sub_key K R sub)" .
    have "\<not> is_submission_of sub t"
    proof
      assume "is_submission_of sub t"
      then obtain env where "t = Tx_executeProposal env sub" by (cases t) auto
      with Inr have "submit K R env c sub = Inr c'" by simp
      moreover from submit_fails_when_key_used [OF Cons.prems] have "isl (submit K R env c sub)" .
      ultimately show False by simp
    qed
    with Inr Cons.IH [OF used'] show ?thesis by simp
  qed
qed

lemma executed_at_most_once: "executed_count K R c ts sub \<le> 1"
proof (induction ts arbitrary: c)
  case Nil
  then show ?case by simp
next
  case (Cons t ts)
  show ?case
  proof (cases "step K R c t")
    case (Inl e)
    with Cons.IH show ?thesis by simp
  next
    case (Inr c')
    show ?thesis
    proof (cases "is_submission_of sub t")
      case True
      then obtain env where "t = Tx_executeProposal env sub" by (cases t) auto
      with Inr have "submit K R env c sub = Inr c'" by simp
      from executed_count_zero_when_used [OF submit_marks_key [OF this]]
      have "executed_count K R c' ts sub = 0" .
      with Inr True show ?thesis by simp
    next
      case False
      with Inr Cons.IH show ?thesis by simp
    qed
  qed
qed

text \<open>The end-to-end scenario runs: the swap of \<open>sub0\<close> is executed on \<open>chain0\<close>.\<close>

lemma eval_sub0: "\<exists>c1. submit stub_keccak stub_recover env0 chain0 sub0 = Inr c1"
proof -
  have "\<not> isl (submit stub_keccak stub_recover env0 chain0 sub0)"
    by (simp add: model_defs world_defs upt_rec Let_def)
  then show ?thesis by (cases "submit stub_keccak stub_recover env0 chain0 sub0") auto
qed

lemma eval_deadline0: "validDeadline (block_timestamp env0) (sub_deadline sub0) = Inr ()"
  by (simp add: world_defs validDeadline_def checked_add_def MAX_DEADLINE_DURATION_def
      MIN_DEADLINE_DURATION_def)

lemma eval_policy0:
  "validateAction (policyManager chain0) (executor_address chain0) (sub_vault sub0)
     (sub_actionType sub0) (sub_params sub0) = Inr (True, '''')"
  by (simp add: model_defs world_defs upt_rec)

lemma eval_vault0:
  "vaults chain0 (sub_vault sub0) = Some vault0" "authorizedExecutors vault0 (executor_address chain0)"
  by (simp_all add: world_defs)

lemma eval_log0:
  "\<exists>al'. logExecution (executor_address chain0) (block_number env0) (auditLog chain0) (sub_vault sub0)
            (msg_sender env0) (sub_actionType sub0) (sub_params sub0)
            (getProposalHash stub_keccak (sub_vault sub0) (sub_actionType sub0) (sub_params sub0)
               (sub_ipfsHash sub0) (sub_nonce sub0) (sub_deadline sub0))
            (sub_ipfsHash sub0) (block_timestamp env0) = Inr al'"
  by (simp add: model_defs world_defs upt_rec)

lemma eval_fresh0: "\<not> isNonceUsed stub_keccak (executor chain0) (sub_nonce sub0)"
  by (simp add: isNonceUsed_def chain0_def executor0_def)

lemma eval_sig0:
  "agentSigner ex = 0xA1 \<Longrightarrow> verifySignature stub_keccak stub_recover ex h (sub_signature sub0) = Inr True"
  by (simp add: verifySignature_def ecrecover_def world_defs be_bytes_def be_word_def upt_rec Let_def)

section \<open>Deadline window (claim C7)\<close>

text \<open>
  Claim C7, as amended. At verification time the Executor rejects every proposal whose
  deadline is equal to the current time or in the past, and it accepts, as far as the
  deadline check goes, exactly the deadlines in \<open>[now + 300, now + 3600]\<close> seconds: a
  deadline one second in the future is rejected as too soon, and the earliest accepted
  deadline is \<open>now + 300\<close>. (Were \<open>now + 3600\<close> to overflow \<open>uint256\<close>, the check would
  abort with \<open>Panic(0x11)\<close>.) The modifier runs before every other check of
  \<open>executeProposal\<close>: whenever it aborts, the call aborts with the same reason, whatever
  the signature, the nonce and the policy are.
\<close>

theorem deadline_window_checked_first:
  "validDeadline now d =
     (if unat d \<le> unat now then Inl (Error ''Executor: Deadline has passed'')
      else if 2 ^ 256 \<le> unat now + 3600 then Inl (Panic 0x11)
      else if unat now + 3600 < unat d then Inl (Error ''Executor: Deadline too far'')
      else if unat d < unat now + 300 then Inl (Error ''Executor: Deadline too soon'')
      else Inr ())
   \<and> (\<forall>e. validDeadline (block_timestamp env) d = Inl e
          \<longrightarrow> executeProposal K R env c v a ps h n d sig = Inl e)"
proof -
  have far: "unat now + 3600 < 2 ^ 256 \<Longrightarrow> unat (now + 3600) = unat now + 3600"
    by (simp add: unat_word_ariths)
  have near: "unat now + 3600 < 2 ^ 256 \<Longrightarrow> unat (now + 300) = unat now + 300"
    by (simp add: unat_word_ariths)
  have "validDeadline now d =
     (if unat d \<le> unat now then Inl (Error ''Executor: Deadline has passed'')
      else if 2 ^ 256 \<le> unat now + 3600 then Inl (Panic 0x11)
      else if unat now + 3600 < unat d then Inl (Error ''Executor: Deadline too far'')
      else if unat d < unat now + 300 then Inl (Error ''Executor: Deadline too soon'')
      else Inr ())"
    by (auto simp add: validDeadline_def checked_add_def MAX_DEADLINE_DURATION_def
        MIN_DEADLINE_DURATION_def word_less_nat_alt word_le_nat_alt far near not_less not_le)
  then show ?thesis
    using executeProposal_deadline by blast
qed

text \<open>
  At time 2000: deadlines 2000 and 1999 have passed, 2001 and 2299 are too soon, 2300 and
  5600 are accepted, 5601 is too far; and \<open>executeProposal\<close> with deadline 2001 aborts
  on the deadline although its signature is not even 65 bytes long.
\<close>

theorem deadline_window_checked_first_witness:
  "validDeadline 2000 2000 = Inl (Error ''Executor: Deadline has passed'')
   \<and> validDeadline 2000 1999 = Inl (Error ''Executor: Deadline has passed'')
   \<and> validDeadline 2000 2001 = Inl (Error ''Executor: Deadline too soon'')
   \<and> validDeadline 2000 2299 = Inl (Error ''Executor: Deadline too soon'')
   \<and> validDeadline 2000 2300 = Inr ()
   \<and> validDeadline 2000 5600 = Inr ()
   \<and> validDeadline 2000 5601 = Inl (Error ''Executor: Deadline too far'')
   \<and> executeProposal stub_keccak stub_recover env0 chain0 0x50 0 [] 0x1234 1 2001 []
       = Inl (Error ''Executor: Deadline too soon'')"
proof -
  have w: "validDeadline 2000 x =
     (if unat x \<le> unat (2000 :: uint256) then Inl (Error ''Executor: Deadline has passed'')
      else if 2 ^ 256 \<le> unat (2000 :: uint256) + 3600 then Inl (Panic 0x11)
      else if unat (2000 :: uint256) + 3600 < unat x then Inl (Error ''Executor: Deadline too far'')
      else if unat x < unat (2000 :: uint256) + 300 then Inl (Error ''Executor: Deadline too soon'')
      else Inr ())" for x
    using deadline_window_checked_first [of 2000 x] by blast
  have soon: "validDeadline (block_timestamp env0) 2001 = Inl (Error ''Executor: Deadline too soon'')"
    by (simp add: w env0_def)
  have "executeProposal stub_keccak stub_recover env0 chain0 0x50 0 [] 0x1234 1 2001 []
       = Inl (Error ''Executor: Deadline too soon'')"
    using deadline_window_checked_first [of "block_timestamp env0" 2001 env0] soon by blast
  then show ?thesis by (simp add: w)
qed

text \<open>
  The claim as stated fails: the swap of the end-to-end scenario, which is executed
  with its deadline of \<open>now + 3600\<close>, is rejected when its deadline is one second in the
  future.
\<close>

theorem deadline_one_second_ahead_rejected:
  "outcomes stub_keccak stub_recover chain0
     [Tx_executeProposal env0 (sub0\<lparr>sub_deadline := block_timestamp env0 + 1\<rparr>)]
   = [Rejected (Error ''Executor: Deadline too soon'')]"
proof -
  have "validDeadline (block_timestamp env0) (block_timestamp env0 + 1)
          = Inl (Error ''Executor: Deadline too soon'')"
    by (simp add: env0_def validDeadline_def checked_add_def MAX_DEADLINE_DURATION_def
        MIN_DEADLINE_DURATION_def)
  from executeProposal_deadline [OF this] show ?thesis
    by (simp add: submit_def)
qed

section \<open>Trade-size cap (claim C4)\<close>

lemma percent_le_iff:
  fixes a b m :: uint256
  assumes nz: "b \<noteq> 0" and nov: "unat a * 100 < 2 ^ 256"
  shows "(a * 100) div b > m \<longleftrightarrow> (unat m + 1) * unat b \<le> unat a * 100"
proof -
  have b0: "0 < unat b" using nz by (simp add: unat_gt_0)
  have "(a * 100) div b > m \<longleftrightarrow> unat m < unat ((a * 100) div b)"
    by (simp add: word_less_nat_alt)
  also have "\<dots> \<longleftrightarrow> unat m < (unat a * 100) div unat b"
    by (simp add: unat_div unat_mul_100 [OF nov])
  also have "\<dots> \<longleftrightarrow> \<not> (unat a * 100) div unat b < Suc (unat m)"
    by auto
  also have "\<dots> \<longleftrightarrow> \<not> unat a * 100 < Suc (unat m) * unat b"
    using b0 by (simp only: div_less_iff_less_mult)
  also have "\<dots> \<longleftrightarrow> (unat m + 1) * unat b \<le> unat a * 100"
    by auto
  finally show ?thesis .
qed

text \<open>
  Claim C4, as amended. For every active policy with \<open>maxTradePercent = m\<close> and every
  Swap through an allowed venue whose decoded \<open>vaultBalance\<close> is not zero (and whose
  \<open>tradeAmount * 100\<close> fits \<open>uint256\<close>), \<open>validateAction\<close> accepts exactly when
  \<open>tradeAmount * 100 < (m + 1) * vaultBalance\<close>, that is when the truncated quotient
  \<open>tradeAmount * 100 / vaultBalance\<close> is at most \<open>m\<close>, and otherwise returns the rejection
  "Trade size exceeds maximum allowed". In particular a \<open>tradeAmount\<close> of exactly \<open>m\<close>
  percent of \<open>vaultBalance\<close> is accepted. Because the division truncates, amounts
  above the exact cap are still accepted up to the next whole percent: one unit above
  the cap is rejected only when \<open>vaultBalance \<le> 100\<close>.
\<close>

theorem swap_cap_truncating:
  assumes auth: "authorizedValidators pm sender \<or> sender = pm_owner pm"
    and created: "createdAt (vaultPolicies pm v) \<noteq> 0"
    and active: "isActive (vaultPolicies pm v)"
    and dec: "abi_decode_address_uint256_uint256 ps = Some (dex, amt, bal)"
    and dex: "dex \<in> set (allowedDex (vaultPolicies pm v))"
    and bal: "bal \<noteq> 0"
    and nov: "unat amt * 100 < 2 ^ 256"
  shows "validateAction pm sender v 0 ps =
           (if unat amt * 100 < (unat (maxTradePercent (vaultPolicies pm v)) + 1) * unat bal
            then Inr (True, '''')
            else Inr (False, ''PolicyManager: Trade size exceeds maximum allowed''))
         \<and> (unat amt * 100 = unat (maxTradePercent (vaultPolicies pm v)) * unat bal
              \<longrightarrow> validateAction pm sender v 0 ps = Inr (True, ''''))"
proof -
  let ?m = "maxTradePercent (vaultPolicies pm v)"
  have b0: "0 < unat bal" using bal by (simp add: unat_gt_0)
  have va: "validateAction pm sender v 0 ps =
        (if (amt * 100) div bal > ?m
         then Inr (False, ''PolicyManager: Trade size exceeds maximum allowed'')
         else Inr (True, ''''))"
    using auth created active dec dex bal nov
    by (simp add: validateAction_def validateSwapAction_def dexAllowed_iff checked_mul_100
        checked_div_def Let_def)
  have main: "validateAction pm sender v 0 ps =
           (if unat amt * 100 < (unat ?m + 1) * unat bal
            then Inr (True, '''')
            else Inr (False, ''PolicyManager: Trade size exceeds maximum allowed''))"
    unfolding va percent_le_iff [OF bal nov] by (simp add: not_le)
  moreover have "unat amt * 100 = unat ?m * unat bal \<Longrightarrow> unat amt * 100 < (unat ?m + 1) * unat bal"
    using b0 by simp
  ultimately show ?thesis by simp
qed

text \<open>The scenario's swap: 100 of 1000 under a cap of 10 percent is accepted.\<close>

theorem swap_cap_truncating_witness:
  "validateAction pm0 0xE0 0x50 0 (abi_encode_address_uint256_uint256 0xD1 100 1000) = Inr (True, '''')"
  using swap_cap_truncating [of pm0 "0xE0" "0x50" "abi_encode_address_uint256_uint256 0xD1 100 1000"
      "0xD1" 100 1000]
  by (simp add: pm_world decode_swap_100)

text \<open>
  The claim as stated fails: under the same policy, 101 of 1000 is one unit above the
  exact cap of 100 and is accepted (\<open>10100 / 1000\<close> truncates to 10).
\<close>

theorem swap_one_unit_above_cap_accepted:
  "validateAction pm0 0xE0 0x50 0 (abi_encode_address_uint256_uint256 0xD1 101 1000) = Inr (True, '''')"
  by (simp add: validateAction_def validateSwapAction_def checked_mul_def checked_div_def pm_world
      decode_swap_101)

section \<open>Zero vault balance (claim C10)\<close>

text \<open>
  Claim C10. \<open>validateAction\<close> is not total over its interface: under an active policy, a
  Lend or Borrow whose decoded \<open>vaultBalance\<close> is 0, and a Swap through an allowed venue
  whose decoded \<open>vaultBalance\<close> is 0, make it abort with an arithmetic panic (division by
  zero, \<open>Panic(0x12)\<close>; overflow, \<open>Panic(0x11)\<close>, when \<open>amount * 100\<close> does not fit) instead
  of returning a \<open>(false, reason)\<close> rejection; an \<open>executeProposal\<close> that reaches the
  policy check with such \<open>params\<close> aborts with that panic, not with a policy reason.
\<close>

theorem validateAction_zero_balance_panics:
  assumes auth: "authorizedValidators (policyManager c) (executor_address c)
                   \<or> executor_address c = pm_owner (policyManager c)"
    and created: "createdAt (vaultPolicies (policyManager c) v) \<noteq> 0"
    and active: "isActive (vaultPolicies (policyManager c) v)"
    and zero: "(a = 0 \<and> abi_decode_address_uint256_uint256 ps = Some (dex, amt, 0)
                  \<and> dex \<in> set (allowedDex (vaultPolicies (policyManager c) v)))
             \<or> ((a = 1 \<or> a = 2) \<and> abi_decode_uint256_uint256 ps = Some (amt, 0))"
    and dl: "validDeadline (block_timestamp env) d = Inr ()"
    and sig: "verifySignature K R (executor c) (getProposalHash K v a ps h n d) sig = Inr True"
    and fresh: "\<not> usedNonces (executor c) (nonceKey_of K (agentSigner (executor c)) n)"
  shows "validateAction (policyManager c) (executor_address c) v a ps =
           Inl (Panic (if unat amt * 100 < 2 ^ 256 then 0x12 else 0x11))
       \<and> executeProposal K R env c v a ps h n d sig =
           Inl (Panic (if unat amt * 100 < 2 ^ 256 then 0x12 else 0x11))"
proof -
  have va: "validateAction (policyManager c) (executor_address c) v a ps =
           Inl (Panic (if unat amt * 100 < 2 ^ 256 then 0x12 else 0x11))"
    using auth created active zero
    by (auto simp add: validateAction_def validateSwapAction_def validateLendingAction_def
        validateBorrowingAction_def dexAllowed_iff checked_mul_100 checked_div_def Let_def)
  have "executeProposal K R env c v a ps h n d sig =
           Inl (Panic (if unat amt * 100 < 2 ^ 256 then 0x12 else 0x11))"
    using dl sig fresh by (simp add: executeProposal_def Let_def va)
  with va show ?thesis by simp
qed

text \<open>A Lend of 5 against a balance of 0 on the deployment: both calls end in \<open>Panic(0x12)\<close>.\<close>

theorem validateAction_zero_balance_panics_witness:
  "validateAction pm0 0xE0 0x50 1 (abi_encode_uint256_uint256 5 0) = Inl (Panic 0x12)
   \<and> executeProposal stub_keccak stub_recover env0 chain0 0x50 1 (abi_encode_uint256_uint256 5 0)
        0x1234 1 5600 (sub_signature sub0) = Inl (Panic 0x12)"
proof -
  have sig: "verifySignature stub_keccak stub_recover (executor chain0)
        (getProposalHash stub_keccak 0x50 1 (abi_encode_uint256_uint256 5 0) 0x1234 1 5600)
        (sub_signature sub0) = Inr True"
    by (rule eval_sig0) (simp add: chain0_def executor0_def)
  have dl: "validDeadline (block_timestamp env0) 5600 = Inr ()"
    using eval_deadline0 by (simp add: sub0_def)
  show ?thesis
    using validateAction_zero_balance_panics [of chain0 "0x50" 1 "abi_encode_uint256_uint256 5 0" 0 5
        env0 5600 stub_keccak stub_recover "0x1234" 1 "sub_signature sub0", OF _ _ _ _ dl sig]
    by (simp add: chain0_def executor0_def pm_world decode_lend_zero)
qed

section \<open>Policy updates (claim C8)\<close>

lemma push_allowedDex_Inr: "push_allowedDex acc ds = Inr r \<Longrightarrow> r = acc @ ds"
proof (induction ds arbitrary: acc)
  case Nil
  then show ?case by simp
next
  case (Cons d ds)
  from Cons.prems have "push_allowedDex (acc @ [d]) ds = Inr r"
    by (simp split: if_splits)
  from Cons.IH [OF this] show ?case by simp
qed

lemma setPolicy_Inr:
  assumes "setPolicy sender now pm v r m e ds = Inr pm'"
  shows "pm' = pm\<lparr>vaultPolicies := (vaultPolicies pm)(v :=
            \<lparr>riskTolerance = r, maxTradePercent = m, emergencyThreshold = e, allowedDex = ds,
             isActive = True,
             createdAt = (if createdAt (vaultPolicies pm v) > 0 then createdAt (vaultPolicies pm v)
                          else now),
             updatedAt = now\<rparr>)\<rparr>"
proof (cases "vaultPolicies pm v")
  case (fields rt mt et ad ia ca ua)
  with assms show ?thesis
    by (auto simp add: setPolicy_def Let_def split: if_splits sum.splits dest!: push_allowedDex_Inr)
qed

text \<open>
  Claim C8, as amended. After \<open>setPolicy\<close> is called twice for the same vault, the vault
  has exactly one stored policy: it is active and holds the parameters of the second
  call, with \<open>createdAt\<close> from the first call (from an earlier one, if the vault had a
  policy before) and \<open>updatedAt\<close> from the second. The policy has no version number,
  and the policy of the first call is overwritten in place: no superseded policy is
  kept. The policies of all other vaults are unchanged.
\<close>

theorem setPolicy_twice_overwrites:
  assumes first: "setPolicy sender1 t1 pm v r1 m1 e1 ds1 = Inr pm1"
    and second: "setPolicy sender2 t2 pm1 v r2 m2 e2 ds2 = Inr pm2"
  shows "vaultPolicies pm2 =
           (vaultPolicies pm)(v :=
             \<lparr>riskTolerance = r2, maxTradePercent = m2, emergencyThreshold = e2, allowedDex = ds2,
              isActive = True,
              createdAt = (if createdAt (vaultPolicies pm v) > 0 then createdAt (vaultPolicies pm v)
                           else if t1 > 0 then t1 else t2),
              updatedAt = t2\<rparr>)"
  unfolding setPolicy_Inr [OF second] setPolicy_Inr [OF first]
  by simp

text \<open>The policy \<open>(50, 10, 90, [0xD1])\<close> at time 1000, then \<open>(60, 20, 80, [0xD2])\<close> at time 2000.\<close>

theorem setPolicy_twice_overwrites_witness:
  "setPolicy 0x01 1000 pm_empty 0x50 50 10 90 [0xD1]
     = Inr (pm_empty\<lparr>vaultPolicies := (\<lambda>_. Policy_default)(0x50 := policy0)\<rparr>)
   \<and> setPolicy 0x01 2000 (pm_empty\<lparr>vaultPolicies := (\<lambda>_. Policy_default)(0x50 := policy0)\<rparr>)
         0x50 60 20 80 [0xD2]
     = Inr (pm_empty\<lparr>vaultPolicies := (\<lambda>_. Policy_default)(0x50 := policy1)\<rparr>)
   \<and> vaultPolicies (pm_empty\<lparr>vaultPolicies := (\<lambda>_. Policy_default)(0x50 := policy1)\<rparr>)
     = (\<lambda>_. Policy_default)(0x50 := policy1)"
proof -
  have a: "setPolicy 0x01 1000 pm_empty 0x50 50 10 90 [0xD1]
     = Inr (pm_empty\<lparr>vaultPolicies := (\<lambda>_. Policy_default)(0x50 := policy0)\<rparr>)"
    by (simp add: setPolicy_def pm_world policy_bounds)
  have b: "setPolicy 0x01 2000 (pm_empty\<lparr>vaultPolicies := (\<lambda>_. Policy_default)(0x50 := policy0)\<rparr>)
         0x50 60 20 80 [0xD2]
     = Inr (pm_empty\<lparr>vaultPolicies := (\<lambda>_. Policy_default)(0x50 := policy1)\<rparr>)"
    by (simp add: setPolicy_def pm_world policy1_def policy_bounds)
  from setPolicy_twice_overwrites [OF a b] a b show ?thesis
    by (simp add: pm_world policy1_def)
qed

text \<open>
  The claim as stated fails: whatever the first policy was, the PolicyManager after
  the second call is the same, so the first policy is not retained anywhere.
\<close>

theorem first_policy_not_retained:
  "(case setPolicy 0x01 1000 pm_empty 0x50 50 10 90 [0xD1] of
      Inl e \<Rightarrow> Inl e
    | Inr pm1 \<Rightarrow> setPolicy 0x01 2000 pm1 0x50 60 20 80 [0xD2])
     = Inr (pm_empty\<lparr>vaultPolicies := (\<lambda>_. Policy_default)(0x50 := policy1)\<rparr>)
   \<and> (case setPolicy 0x01 1000 pm_empty 0x50 7 3 5 [0xD5, 0xD6] of
      Inl e \<Rightarrow> Inl e
    | Inr pm1 \<Rightarrow> setPolicy 0x01 2000 pm1 0x50 60 20 80 [0xD2])
     = Inr (pm_empty\<lparr>vaultPolicies := (\<lambda>_. Policy_default)(0x50 := policy1)\<rparr>)"
  by (simp add: setPolicy_def pm_world policy1_def policy_bounds)

section \<open>Proposal creation (claim C9)\<close>

lemma round_double_safe: "\<bar>x\<bar> \<le> 2 ^ 53 \<Longrightarrow> round_double x = x"
  by (simp add: round_double_def)

lemma js_add_safe: "\<bar>a + b\<bar> \<le> 2 ^ 53 \<Longrightarrow> js_add a b = a + b"
  by (simp add: js_add_def round_double_safe)

lemma floor_log2_small: "n < 2 \<Longrightarrow> floor_log2 n = 0"
  by (subst floor_log2.simps) simp

lemma floor_log2_halve: "2 \<le> n \<Longrightarrow> floor_log2 n = Suc (floor_log2 (n div 2))"
  by (subst floor_log2.simps) simp

text \<open>
  Above \<open>2 ^ 53\<close> the sum is rounded: with the largest safe integer as offset the
  deadline is the even neighbour \<open>9007200954740992\<close> of the exact sum \<open>9007200954740991\<close>.
\<close>

lemma round_double_example: "round_double 9007200954740991 = 9007200954740992"
proof -
  have "floor_log2 9007200954740991 = 53"
    by (simp add: floor_log2_small floor_log2_halve)
  then show ?thesis
    by (simp add: round_double_def Let_def)
qed

lemma createProposal_rounds:
  "deadline (fst (createProposal 1700000000000 Map.empty ''0x50'' 0 ''0x00'' ''0x1234''
      9007199254740991)) = 9007200954740992"
  by (simp add: createProposal_def Signer_getNextNonce_def js_add_def now_seconds_def
      round_double_example Let_def)

text \<open>
  Claim C9, as amended. For every caller-supplied integer \<open>deadlineOffset\<close> (of
  magnitude up to \<open>2 ^ 53\<close>, with \<open>floor(now / 1000) + deadlineOffset\<close> in that range too,
  where the addition of doubles is exact) \<open>createProposal\<close> stamps
  \<open>deadline = floor(now / 1000) + deadlineOffset\<close> and \<open>nonce = tracked nonce + 1\<close>: it
  neither rejects nor clips. A window is only checked by the separate
  \<open>validateProposal\<close>, at its own readings \<open>now1\<close> and \<open>now2\<close> of the clock: it accepts the
  created proposal exactly when the other fields are well-formed and
  \<open>floor(now1 / 1000) < deadline \<le> floor(now2 / 1000) + 86400\<close> (24 hours).
\<close>

theorem createProposal_no_bound:
  assumes created: "0 \<le> date_now" "date_now \<le> 8640000000000000"
    and checked: "0 \<le> date_now1" "date_now1 \<le> 8640000000000000"
                 "0 \<le> date_now2" "date_now2 \<le> 8640000000000000"
    and off: "\<bar>off\<bar> \<le> 2 ^ 53" "\<bar>date_now div 1000 + off\<bar> \<le> 2 ^ 53"
    and tracked: "0 \<le> (case tr v of None \<Rightarrow> 0 | Some k \<Rightarrow> k)"
                 "(case tr v of None \<Rightarrow> 0 | Some k \<Rightarrow> k) < 2 ^ 53"
  shows "deadline (fst (createProposal date_now tr v a ps h off)) = date_now div 1000 + off
   \<and> nonce (fst (createProposal date_now tr v a ps h off)) = (case tr v of None \<Rightarrow> 0 | Some k \<Rightarrow> k) + 1
   \<and> (validateProposal date_now1 date_now2 isAddress (fst (createProposal date_now tr v a ps h off)) \<longleftrightarrow>
        (isAddress v \<and> v \<noteq> [] \<and> 0 \<le> a \<and> a \<le> 5 \<and> ps \<noteq> [] \<and> length h = 66
         \<and> date_now1 div 1000 < date_now div 1000 + off
         \<and> date_now div 1000 + off \<le> date_now2 div 1000 + 86400))"
proof -
  let ?k = "case tr v of None \<Rightarrow> 0 | Some k \<Rightarrow> k"
  have n: "js_add ?k 1 = ?k + 1"
    using tracked by (intro js_add_safe) simp
  have d: "js_add (now_seconds date_now) off = date_now div 1000 + off"
    using off(2) by (simp add: js_add_safe now_seconds_def)
  have "\<bar>date_now2 div 1000 + 86400\<bar> \<le> 2 ^ 53"
    using checked(3,4) by simp
  then have m: "js_add (date_now2 div 1000) 86400 = date_now2 div 1000 + 86400"
    by (simp add: js_add_safe)
  have p: "fst (createProposal date_now tr v a ps h off) =
      \<lparr>vault = v, actionType = a, params = ps, ipfsHash = h, nonce = ?k + 1,
       deadline = date_now div 1000 + off\<rparr>"
    using n d by (simp add: createProposal_def Signer_getNextNonce_def Let_def)
  show ?thesis
    unfolding p using tracked(1)
    by (auto simp add: validateProposal_def m now_seconds_def Let_def)
qed

text \<open>
  On a fresh Signer, validated two seconds after creation: with the default offset of
  one hour the proposal is valid; with an offset of one second it is not.
\<close>

theorem createProposal_no_bound_witness:
  "deadline (fst (createProposal 1700000000000 Map.empty ''0x50'' 0 ''0x00'' (replicate 66 CHR ''0'') 3600))
     = 1700003600
   \<and> nonce (fst (createProposal 1700000000000 Map.empty ''0x50'' 0 ''0x00'' (replicate 66 CHR ''0'') 3600))
     = 1
   \<and> validateProposal 1700000002000 1700000002001 (\<lambda>_. True)
        (fst (createProposal 1700000000000 Map.empty ''0x50'' 0 ''0x00'' (replicate 66 CHR ''0'') 3600))
   \<and> \<not> validateProposal 1700000002000 1700000002001 (\<lambda>_. True)
        (fst (createProposal 1700000000000 Map.empty ''0x50'' 0 ''0x00'' (replicate 66 CHR ''0'') 1))"
  using createProposal_no_bound [of 1700000000000 1700000002000 1700000002001 3600 Map.empty
      "''0x50''" 0 "''0x00''" "replicate 66 CHR ''0''" "\<lambda>_. True"]
    createProposal_no_bound [of 1700000000000 1700000002000 1700000002001 1 Map.empty
      "''0x50''" 0 "''0x00''" "replicate 66 CHR ''0''" "\<lambda>_. True"]
  by simp

text \<open>
  The claim as stated fails: an offset of 1000000 seconds (more than eleven days) and
  an offset of -5 seconds both yield a Proposal, with the deadline that far away and
  in the past.
\<close>

theorem createProposal_offset_outside_window:
  "deadline (fst (createProposal 1700000000000 Map.empty ''0x50'' 0 ''0x00'' ''0x1234'' 1000000))
     = 1700000000 + 1000000
   \<and> deadline (fst (createProposal 1700000000000 Map.empty ''0x50'' 0 ''0x00'' ''0x1234'' (-5)))
     = 1700000000 - 5"
  by (simp add: createProposal_def Signer_getNextNonce_def js_add_def now_seconds_def round_double_def)

section \<open>Proposal hashes of Signer and Executor (claim C1)\<close>

text \<open>
  Claim C1 does not hold of the code. For every proposal the Signer hashes the
  standard ABI encoding of the six fields, \<open>224 + 32 * ceil(length params / 32)\<close> bytes,
  and the Executor hashes their packed encoding, \<open>117 + length params\<close> bytes: the two
  byte strings differ for every proposal, so the two hashes are \<open>keccak256\<close> of
  different inputs.
\<close>

theorem signer_executor_encodings_differ:
  "length (encodeProposal v a ps h n d) = 224 + length ps + (32 - length ps mod 32) mod 32
   \<and> length (abi_encodePacked_proposal v a ps h n d) = 117 + length ps
   \<and> encodeProposal v a ps h n d \<noteq> abi_encodePacked_proposal v a ps h n d
   \<and> Signer_getProposalHash K v a ps h n d = K (encodeProposal v a ps h n d)
   \<and> getProposalHash K v a ps h n d = K (abi_encodePacked_proposal v a ps h n d)"
proof -
  have l1: "length (encodeProposal v a ps h n d) = 224 + length ps + (32 - length ps mod 32) mod 32"
    by (simp add: encodeProposal_def)
  have l2: "length (abi_encodePacked_proposal v a ps h n d) = 117 + length ps"
    by (simp add: abi_encodePacked_proposal_def)
  have "length (encodeProposal v a ps h n d) \<noteq> length (abi_encodePacked_proposal v a ps h n d)"
    unfolding l1 l2 by simp
  then have "encodeProposal v a ps h n d \<noteq> abi_encodePacked_proposal v a ps h n d"
    by auto
  with l1 l2 show ?thesis
    by (simp add: Signer_getProposalHash_def getProposalHash_def)
qed

text \<open>
  The proposal of the end-to-end scenario: 320 bytes against 213, which already a hash
  that only counts the bytes tells apart.
\<close>

theorem signer_executor_encodings_differ_witness:
  "length (encodeProposal 0x50 0 (abi_encode_address_uint256_uint256 0xD1 100 1000) 0x1234 1 5600) = 320
   \<and> length (abi_encodePacked_proposal 0x50 0 (abi_encode_address_uint256_uint256 0xD1 100 1000)
        0x1234 1 5600) = 213
   \<and> encodeProposal 0x50 0 (abi_encode_address_uint256_uint256 0xD1 100 1000) 0x1234 1 5600
       \<noteq> abi_encodePacked_proposal 0x50 0 (abi_encode_address_uint256_uint256 0xD1 100 1000)
            0x1234 1 5600
   \<and> Signer_getProposalHash stub_keccak 0x50 0 (abi_encode_address_uint256_uint256 0xD1 100 1000)
        0x1234 1 5600 = 321
   \<and> getProposalHash stub_keccak 0x50 0 (abi_encode_address_uint256_uint256 0xD1 100 1000)
        0x1234 1 5600 = 214"
  using signer_executor_encodings_differ [of "0x50" 0 "abi_encode_address_uint256_uint256 0xD1 100 1000"
      "0x1234" 1 5600 stub_keccak]
  by (simp add: abi_encode_address_uint256_uint256_def stub_keccak_def)

section \<open>Replay protection (claim C2)\<close>

text \<open>
  Claim C2. Take any signed proposal that is valid when first submitted: its deadline
  is in the window, its signature verifies against the registered signer, its nonce
  is unused, the policy accepts it, and the vault and the audit log accept the
  Executor's calls. Submitting the identical pair twice, the second time while the
  deadline is still in the window, yields \<open>Executed\<close> and then the rejection
  "Nonce already used" (NonceReused). And in no trace of transactions, from no chain
  state, is the same pair executed twice.
\<close>

theorem replay_rejected:
  assumes dl1: "validDeadline (block_timestamp env1) (sub_deadline sub) = Inr ()"
    and sig: "verifySignature K R (executor c)
                (getProposalHash K (sub_vault sub) (sub_actionType sub) (sub_params sub)
                   (sub_ipfsHash sub) (sub_nonce sub) (sub_deadline sub))
                (sub_signature sub) = Inr True"
    and fresh: "\<not> isNonceUsed K (executor c) (sub_nonce sub)"
    and policy: "validateAction (policyManager c) (executor_address c) (sub_vault sub)
                   (sub_actionType sub) (sub_params sub) = Inr (True, reason)"
    and vault: "vaults c (sub_vault sub) = Some vc" "authorizedExecutors vc (executor_address c)"
    and log: "logExecution (executor_address c) (block_number env1) (auditLog c) (sub_vault sub)
                (msg_sender env1) (sub_actionType sub) (sub_params sub)
                (getProposalHash K (sub_vault sub) (sub_actionType sub) (sub_params sub)
                   (sub_ipfsHash sub) (sub_nonce sub) (sub_deadline sub))
                (sub_ipfsHash sub) (block_timestamp env1) = Inr al'"
    and dl2: "validDeadline (block_timestamp env2) (sub_deadline sub) = Inr ()"
  shows "outcomes K R c [Tx_executeProposal env1 sub, Tx_executeProposal env2 sub]
           = [Executed, Rejected (Error ''Executor: Nonce already used'')]
         \<and> (\<forall>c0 ts. executed_count K R c0 ts sub \<le> 1)"
proof -
  from fresh have fresh': "\<not> usedNonces (executor c) (nonceKey_of K (agentSigner (executor c)) (sub_nonce sub))"
    by (simp add: isNonceUsed_def)
  obtain c1 where first: "submit K R env1 c sub = Inr c1"
    unfolding submit_def
    using executeProposal_succeeds [OF dl1 sig fresh' policy vault log] by blast
  note f = executeProposal_Inr [OF first [unfolded submit_def]]
  have sig1: "verifySignature K R (executor c1)
       (getProposalHash K (sub_vault sub) (sub_actionType sub) (sub_params sub) (sub_ipfsHash sub)
          (sub_nonce sub) (sub_deadline sub)) (sub_signature sub) = Inr True"
    using f(2) f(4) by (simp add: verifySignature_def Let_def split: if_splits)
  have used: "usedNonces (executor c1) (nonceKey_of K (agentSigner (executor c1)) (sub_nonce sub))"
    using f(4) by simp
  have "submit K R env2 c1 sub = Inl (Error ''Executor: Nonce already used'')"
    unfolding submit_def by (rule executeProposal_nonce_used [OF dl2 sig1 used])
  with first executed_at_most_once show ?thesis by simp
qed

text \<open>The end-to-end scenario: the swap is executed, its resubmission is rejected.\<close>

theorem replay_rejected_witness:
  "outcomes stub_keccak stub_recover chain0 [Tx_executeProposal env0 sub0, Tx_executeProposal env0 sub0]
     = [Executed, Rejected (Error ''Executor: Nonce already used'')]"
proof -
  obtain al' where log: "logExecution (executor_address chain0) (block_number env0) (auditLog chain0)
            (sub_vault sub0) (msg_sender env0) (sub_actionType sub0) (sub_params sub0)
            (getProposalHash stub_keccak (sub_vault sub0) (sub_actionType sub0) (sub_params sub0)
               (sub_ipfsHash sub0) (sub_nonce sub0) (sub_deadline sub0))
            (sub_ipfsHash sub0) (block_timestamp env0) = Inr al'"
    using eval_log0 by blast
  have sig: "verifySignature stub_keccak stub_recover (executor chain0)
        (getProposalHash stub_keccak (sub_vault sub0) (sub_actionType sub0) (sub_params sub0)
           (sub_ipfsHash sub0) (sub_nonce sub0) (sub_deadline sub0))
        (sub_signature sub0) = Inr True"
    by (rule eval_sig0) (simp add: chain0_def executor0_def)
  from replay_rejected [OF eval_deadline0 sig eval_fresh0 eval_policy0 eval_vault0 log eval_deadline0]
  show ?thesis by blast
qed

section \<open>Emergency pause (claim C3)\<close>

text \<open>
  Claim C3 does not hold of the code. \<open>emergencyPause\<close> sets the registered signer to
  the zero address, and \<open>ecrecover\<close> yields the zero address for a signature whose \<open>v\<close>
  byte is neither 27 nor 28; \<open>_verifySignature\<close> compares the two and does not exclude
  the zero address. So while the Executor is paused, any proposal that passes the
  other checks is executed with any 65-byte string whose last byte is not 27 or 28 as
  its signature.
\<close>

theorem paused_executor_executes_unsigned_proposal:
  assumes owner: "sender = ex_owner (executor c)"
    and len: "length (sub_signature sub) = 65"
    and v27: "sub_signature sub ! 64 \<noteq> 27" and v28: "sub_signature sub ! 64 \<noteq> 28"
    and dl: "validDeadline (block_timestamp env) (sub_deadline sub) = Inr ()"
    and fresh: "\<not> usedNonces (executor c) (nonceKey_of K 0 (sub_nonce sub))"
    and policy: "validateAction (policyManager c) (executor_address c) (sub_vault sub)
                   (sub_actionType sub) (sub_params sub) = Inr (True, reason)"
    and vault: "vaults c (sub_vault sub) = Some vc" "authorizedExecutors vc (executor_address c)"
    and log: "logExecution (executor_address c) (block_number env) (auditLog c) (sub_vault sub)
                (msg_sender env) (sub_actionType sub) (sub_params sub)
                (getProposalHash K (sub_vault sub) (sub_actionType sub) (sub_params sub)
                   (sub_ipfsHash sub) (sub_nonce sub) (sub_deadline sub))
                (sub_ipfsHash sub) (block_timestamp env) = Inr al'"
  shows "agentSigner (executor (run K R c [Tx_emergencyPause sender])) = 0
         \<and> outcomes K R c [Tx_emergencyPause sender, Tx_executeProposal env sub] = [Executed, Executed]"
proof -
  let ?c = "c\<lparr>executor := (executor c)\<lparr>agentSigner := 0\<rparr>\<rparr>"
  have pause: "step K R c (Tx_emergencyPause sender) = Inr ?c"
    using owner by (simp add: emergencyPause_def)
  have sig: "verifySignature K R (executor ?c) (getProposalHash K (sub_vault sub) (sub_actionType sub)
       (sub_params sub) (sub_ipfsHash sub) (sub_nonce sub) (sub_deadline sub)) (sub_signature sub) = Inr True"
    by (rule verifySignature_paused [OF len v27 v28]) simp
  have "\<exists>c'. submit K R env ?c sub = Inr c'"
    unfolding submit_def
    using executeProposal_succeeds [of env "sub_deadline sub" K R ?c, OF dl sig] fresh policy vault log
    by simp
  with pause show ?thesis by auto
qed

text \<open>
  On the deployment: the owner pauses, then the relayer submits the scenario's swap
  with 65 zero bytes as its signature, and it is executed.
\<close>

theorem paused_executor_executes_unsigned_proposal_witness:
  "agentSigner (executor (run stub_keccak stub_recover chain0 [Tx_emergencyPause 0x01])) = 0
   \<and> outcomes stub_keccak stub_recover chain0
       [Tx_emergencyPause 0x01, Tx_executeProposal env0 (sub0\<lparr>sub_signature := replicate 65 0\<rparr>)]
     = [Executed, Executed]"
proof -
  let ?sub = "sub0\<lparr>sub_signature := replicate 65 0\<rparr>"
  obtain al' where "logExecution (executor_address chain0) (block_number env0) (auditLog chain0)
            (sub_vault sub0) (msg_sender env0) (sub_actionType sub0) (sub_params sub0)
            (getProposalHash stub_keccak (sub_vault sub0) (sub_actionType sub0) (sub_params sub0)
               (sub_ipfsHash sub0) (sub_nonce sub0) (sub_deadline sub0))
            (sub_ipfsHash sub0) (block_timestamp env0) = Inr al'"
    using eval_log0 by blast
  then have log: "logExecution (executor_address chain0) (block_number env0) (auditLog chain0)
            (sub_vault ?sub) (msg_sender env0) (sub_actionType ?sub) (sub_params ?sub)
            (getProposalHash stub_keccak (sub_vault ?sub) (sub_actionType ?sub) (sub_params ?sub)
               (sub_ipfsHash ?sub) (sub_nonce ?sub) (sub_deadline ?sub))
            (sub_ipfsHash ?sub) (block_timestamp env0) = Inr al'"
    by simp
  have owner: "0x01 = ex_owner (executor chain0)"
    by (simp add: chain0_def executor0_def)
  have len: "length (sub_signature ?sub) = 65" by simp
  have v27: "sub_signature ?sub ! 64 \<noteq> 27" and v28: "sub_signature ?sub ! 64 \<noteq> 28" by simp_all
  have dl: "validDeadline (block_timestamp env0) (sub_deadline ?sub) = Inr ()"
    using eval_deadline0 by simp
  have fresh: "\<not> usedNonces (executor chain0) (nonceKey_of stub_keccak 0 (sub_nonce ?sub))"
    by (simp add: chain0_def executor0_def)
  have policy: "validateAction (policyManager chain0) (executor_address chain0) (sub_vault ?sub)
                   (sub_actionType ?sub) (sub_params ?sub) = Inr (True, '''')"
    using eval_policy0 by simp
  have vault: "vaults chain0 (sub_vault ?sub) = Some vault0"
    using eval_vault0(1) by simp
  from paused_executor_executes_unsigned_proposal [OF owner len v27 v28 dl fresh policy vault
      eval_vault0(2) log]
  show ?thesis .
qed

section \<open>Scope of the nonce (claim C5)\<close>

text \<open>
  Claim C5 does not hold of the code. The Executor marks a nonce under a key made of
  the registered signer and the nonce alone; the vault is not part of it. Once a
  proposal is executed, every later proposal with the same nonce value, for whatever
  vault, that reaches the replay check (deadline in the window, signature of the same
  registered signer) is rejected with "Nonce already used".
\<close>

theorem same_nonce_other_vault_rejected:
  assumes first: "submit K R env1 c sub1 = Inr c1"
    and same_nonce: "sub_nonce sub2 = sub_nonce sub1"
    and dl: "validDeadline (block_timestamp env2) (sub_deadline sub2) = Inr ()"
    and sig: "verifySignature K R (executor c1)
                (getProposalHash K (sub_vault sub2) (sub_actionType sub2) (sub_params sub2)
                   (sub_ipfsHash sub2) (sub_nonce sub2) (sub_deadline sub2))
                (sub_signature sub2) = Inr True"
  shows "outcomes K R c [Tx_executeProposal env1 sub1, Tx_executeProposal env2 sub2]
           = [Executed, Rejected (Error ''Executor: Nonce already used'')]"
proof -
  note f = executeProposal_Inr [OF first [unfolded submit_def]]
  have used: "usedNonces (executor c1) (nonceKey_of K (agentSigner (executor c1)) (sub_nonce sub2))"
    using f(4) same_nonce by simp
  have "submit K R env2 c1 sub2 = Inl (Error ''Executor: Nonce already used'')"
    unfolding submit_def by (rule executeProposal_nonce_used [OF dl sig used])
  with first show ?thesis by simp
qed

text \<open>
  The Signer gives the first proposal of each vault the nonce 1. On the deployment the
  swap for Vault \<open>0x51\<close> with nonce 1 is executed when submitted alone, and rejected when
  submitted after the swap for Vault \<open>0x50\<close> with nonce 1.
\<close>

theorem same_nonce_other_vault_rejected_witness:
  "nonce (fst (createProposal 1700000000000 Map.empty ''0x50'' 0 ''0x00'' ''0x1234'' 3600)) = 1
   \<and> nonce (fst (createProposal 1700000000000
        (snd (createProposal 1700000000000 Map.empty ''0x50'' 0 ''0x00'' ''0x1234'' 3600))
        ''0x51'' 0 ''0x00'' ''0x1234'' 3600)) = 1
   \<and> sub_vault (sub0\<lparr>sub_vault := 0x51\<rparr>) \<noteq> sub_vault sub0
   \<and> sub_nonce (sub0\<lparr>sub_vault := 0x51\<rparr>) = sub_nonce sub0
   \<and> outcomes stub_keccak stub_recover chain0 [Tx_executeProposal env0 (sub0\<lparr>sub_vault := 0x51\<rparr>)]
     = [Executed]
   \<and> outcomes stub_keccak stub_recover chain0
        [Tx_executeProposal env0 sub0, Tx_executeProposal env0 (sub0\<lparr>sub_vault := 0x51\<rparr>)]
     = [Executed, Rejected (Error ''Executor: Nonce already used'')]"
proof -
  obtain c1 where c1: "submit stub_keccak stub_recover env0 chain0 sub0 = Inr c1"
    using eval_sub0 by blast
  have ex1: "agentSigner (executor c1) = 0xA1"
    using executeProposal_Inr(4) [OF c1 [unfolded submit_def]] by (simp add: world_defs)
  have sig: "verifySignature stub_keccak stub_recover (executor c1)
                (getProposalHash stub_keccak 0x51 (sub_actionType sub0) (sub_params sub0)
                   (sub_ipfsHash sub0) (sub_nonce sub0) (sub_deadline sub0))
                (sub_signature sub0) = Inr True"
    by (rule eval_sig0 [OF ex1])
  have alone: "\<not> isl (submit stub_keccak stub_recover env0 chain0 (sub0\<lparr>sub_vault := 0x51\<rparr>))"
    by (simp add: model_defs world_defs upt_rec Let_def)
  have v: "sub_vault (sub0\<lparr>sub_vault := 0x51\<rparr>) \<noteq> sub_vault sub0"
    by (simp add: sub0_def)
  have n: "nonce (fst (createProposal 1700000000000 Map.empty ''0x50'' 0 ''0x00'' ''0x1234'' 3600)) = 1
   \<and> nonce (fst (createProposal 1700000000000
        (snd (createProposal 1700000000000 Map.empty ''0x50'' 0 ''0x00'' ''0x1234'' 3600))
        ''0x51'' 0 ''0x00'' ''0x1234'' 3600)) = 1"
    by (simp add: createProposal_def Signer_getNextNonce_def js_add_def round_double_def)
  from alone have "outcomes stub_keccak stub_recover chain0
      [Tx_executeProposal env0 (sub0\<lparr>sub_vault := 0x51\<rparr>)] = [Executed]"
    by (cases "submit stub_keccak stub_recover env0 chain0 (sub0\<lparr>sub_vault := 0x51\<rparr>)") auto
  with v n same_nonce_other_vault_rejected [of stub_keccak stub_recover env0 chain0 sub0 c1
      "sub0\<lparr>sub_vault := 0x51\<rparr>" env0, OF c1] sig eval_deadline0
  show ?thesis by simp
qed

section \<open>Failed effects and the nonce (claim C6)\<close>

lemma validateAction_abort:
  "validateAction pm s v a ps = Inl e \<Longrightarrow> e \<noteq> Error ''Executor: Nonce already used''"
  by (auto simp add: validateAction_def validateSwapAction_def validateLendingAction_def
      validateBorrowingAction_def checked_mul_def checked_div_def Let_def
      split: if_splits option.splits sum.splits)

lemma validateAction_reason:
  "validateAction pm s v a ps = Inr (False, reason) \<Longrightarrow> reason \<noteq> ''Executor: Nonce already used''"
  by (auto simp add: validateAction_def validateSwapAction_def validateLendingAction_def
      validateBorrowingAction_def checked_mul_def checked_div_def Let_def
      split: if_splits option.splits sum.splits)

lemma executeAction_abort:
  "executeAction s t vc a ps = Inl e \<Longrightarrow> e \<noteq> Error ''Executor: Nonce already used''"
  by (auto simp add: executeAction_def split: if_splits)

lemma logExecution_abort:
  "logExecution s bn al v x a ps ph h t = Inl e \<Longrightarrow> e \<noteq> Error ''Executor: Nonce already used''"
  by (auto simp add: logExecution_def checked_add_def Let_def split: if_splits)

text \<open>
  Claim C6, as amended. In the Executor's verification pass the nonce is marked used
  before the policy check and the effect are attempted, and an execution that
  completes leaves it marked. But a proposal whose policy check, vault action or
  audit write fails aborts the whole call, and the abort discards the mark with
  every other write: the chain is as before, the nonce is still unused, and
  resubmitting the same proposal under the same conditions is rejected for the same
  reason again, which is never "Nonce already used".
\<close>

theorem failed_attempt_leaves_nonce_unused:
  assumes dl: "validDeadline (block_timestamp env) (sub_deadline sub) = Inr ()"
    and sig: "verifySignature K R (executor c)
                (getProposalHash K (sub_vault sub) (sub_actionType sub) (sub_params sub)
                   (sub_ipfsHash sub) (sub_nonce sub) (sub_deadline sub))
                (sub_signature sub) = Inr True"
    and fresh: "\<not> isNonceUsed K (executor c) (sub_nonce sub)"
  shows "(\<forall>c'. submit K R env c sub = Inr c' \<longrightarrow> isNonceUsed K (executor c') (sub_nonce sub))
       \<and> (\<forall>e. submit K R env c sub = Inl e \<longrightarrow>
             run K R c [Tx_executeProposal env sub] = c
           \<and> \<not> isNonceUsed K (executor (run K R c [Tx_executeProposal env sub])) (sub_nonce sub)
           \<and> outcomes K R c [Tx_executeProposal env sub, Tx_executeProposal env sub]
               = [Rejected e, Rejected e]
           \<and> e \<noteq> Error ''Executor: Nonce already used'')"
proof (intro conjI allI impI)
  fix c' assume "submit K R env c sub = Inr c'"
  from executeProposal_Inr(4) [OF this [unfolded submit_def]]
  show "isNonceUsed K (executor c') (sub_nonce sub)" by (simp add: isNonceUsed_def)
next
  fix e assume f: "submit K R env c sub = Inl e"
  then show "run K R c [Tx_executeProposal env sub] = c" by simp
  from f fresh show "\<not> isNonceUsed K (executor (run K R c [Tx_executeProposal env sub])) (sub_nonce sub)"
    by simp
  from f show "outcomes K R c [Tx_executeProposal env sub, Tx_executeProposal env sub]
      = [Rejected e, Rejected e]" by simp
  from f dl sig fresh show "e \<noteq> Error ''Executor: Nonce already used''"
    by (auto simp add: submit_def executeProposal_def isNonceUsed_def Let_def
        split: sum.splits if_splits option.splits prod.splits
        dest: validateAction_abort validateAction_reason executeAction_abort logExecution_abort)
qed

lemma eval_nopolicy:
  "submit stub_keccak stub_recover env0 (chain0\<lparr>policyManager := pm_nopolicy\<rparr>) sub0
     = Inl (Error ''PolicyManager: No policy found for vault'')"
  by (simp add: model_defs world_defs pm_nopolicy_def upt_rec Let_def)

text \<open>
  The scenario's swap before any policy is set: rejected for the missing policy, on
  the first submission and on the second, with the nonce unused after each.
\<close>

theorem failed_attempt_leaves_nonce_unused_witness:
  "run stub_keccak stub_recover (chain0\<lparr>policyManager := pm_nopolicy\<rparr>) [Tx_executeProposal env0 sub0]
     = chain0\<lparr>policyManager := pm_nopolicy\<rparr>
   \<and> \<not> isNonceUsed stub_keccak
         (executor (run stub_keccak stub_recover (chain0\<lparr>policyManager := pm_nopolicy\<rparr>)
            [Tx_executeProposal env0 sub0])) 1
   \<and> outcomes stub_keccak stub_recover (chain0\<lparr>policyManager := pm_nopolicy\<rparr>)
       [Tx_executeProposal env0 sub0, Tx_executeProposal env0 sub0]
     = [Rejected (Error ''PolicyManager: No policy found for vault''),
        Rejected (Error ''PolicyManager: No policy found for vault'')]"
proof -
  have sig: "verifySignature stub_keccak stub_recover (executor (chain0\<lparr>policyManager := pm_nopolicy\<rparr>))
        (getProposalHash stub_keccak (sub_vault sub0) (sub_actionType sub0) (sub_params sub0)
           (sub_ipfsHash sub0) (sub_nonce sub0) (sub_deadline sub0))
        (sub_signature sub0) = Inr True"
    by (rule eval_sig0) (simp add: chain0_def executor0_def)
  have fresh: "\<not> isNonceUsed stub_keccak (executor (chain0\<lparr>policyManager := pm_nopolicy\<rparr>)) (sub_nonce sub0)"
    by (simp add: isNonceUsed_def chain0_def executor0_def)
  have n: "sub_nonce sub0 = 1" by (simp add: sub0_def)
  from failed_attempt_leaves_nonce_unused [OF eval_deadline0 sig fresh] eval_nopolicy
  show ?thesis unfolding n by blast
qed

text \<open>
  The claim as stated fails: the swap is rejected while the vault has no policy; once
  the policy is set, the same proposal with the same signature is resubmitted and
  executed, not rejected for its nonce.
\<close>

theorem nonce_freed_after_policy_failure:
  "outcomes stub_keccak stub_recover (chain0\<lparr>policyManager := pm_nopolicy\<rparr>)
     [Tx_executeProposal env0 sub0, Tx_environment pm0 al0 (vaults chain0), Tx_executeProposal env0 sub0]
   = [Rejected (Error ''PolicyManager: No policy found for vault''), Executed, Executed]"
proof -
  have b: "chain0\<lparr>policyManager := pm0, auditLog := al0\<rparr> = chain0"
    by (simp add: chain0_def)
  obtain c1 where c1: "submit stub_keccak stub_recover env0 chain0 sub0 = Inr c1"
    using eval_sub0 by blast
  show ?thesis by (simp add: eval_nopolicy b c1)
qed

end
